theory Spec2Isabelle
  imports Main
begin

section \<open>JavaScript strings\<close>

text \<open>
  A JavaScript string is a \<^typ>\<open>string\<close>. The helpers follow the String methods the
  server calls: \<open>startsWith\<close>, \<open>includes\<close> (here \<open>includesStr\<close>), \<open>replace\<close> with the two regular
  expressions of \<open>startFFmpegStream\<close>, and \<open>Array.prototype.join\<close>.
\<close>

definition backslash :: char where
  "backslash = CHR 0x5C"

definition startsWith :: "string \<Rightarrow> string \<Rightarrow> bool" where
  "startsWith s p = (take (length p) s = p)"

primrec includesStr :: "string \<Rightarrow> string \<Rightarrow> bool" where
  "includesStr [] t = (t = [])"
| "includesStr (c # cs) t = (startsWith (c # cs) t \<or> includesStr cs t)"

text \<open>The global replace of \<open>startFFmpegStream\<close>: every backslash becomes a slash.\<close>

definition replaceBackslashes :: "string \<Rightarrow> string" where
  "replaceBackslashes s = map (\<lambda>c. if c = backslash then CHR ''/'' else c) s"

text \<open>
  The replace applied to \<open>streamUrl\<close> (an optional slash followed by the end of the
  string, replaced by a slash): the expression has no \<open>g\<close> flag, so the leftmost match
  is replaced. At a position before the end the optional slash can only match when it is
  the last character; at the end the empty string matches.
\<close>

fun replaceTrailingSlash :: "string \<Rightarrow> string" where
  "replaceTrailingSlash [] = ''/''"
| "replaceTrailingSlash (c # cs) =
     (if c = CHR ''/'' \<and> cs = [] then ''/'' else c # replaceTrailingSlash cs)"

fun joinWith :: "string \<Rightarrow> string list \<Rightarrow> string" where
  "joinWith sep [] = []"
| "joinWith sep [x] = x"
| "joinWith sep (x # y # ys) = x @ sep @ joinWith sep (y # ys)"

section \<open>Command builder\<close>

text \<open>
  The argument list is built inside \<open>startFFmpegStream\<close>. The current server
  (\<open>shouldLoop\<close> parameter, path conversion guarded by \<open>startsWith("C:")\<close>, slash
  inserted between URL and key) and the earlier server (suffix \<open>_v1\<close>: no loop
  parameter, no conversion, plain concatenation) are both part of the repository.
\<close>

definition normalizeInput :: "string \<Rightarrow> string" where
  "normalizeInput inputSource =
     (if startsWith inputSource ''C:'' then replaceBackslashes inputSource else inputSource)"

definition rtmpUrl :: "string \<Rightarrow> string \<Rightarrow> string" where
  "rtmpUrl streamUrl streamKey = replaceTrailingSlash streamUrl @ streamKey"

definition encodingArgs :: "string list" where
  "encodingArgs =
     [''-c:v'', ''libx264'', ''-preset'', ''veryfast'', ''-maxrate'', ''3000k'',
      ''-bufsize'', ''6000k'', ''-pix_fmt'', ''yuv420p'', ''-g'', ''50'',
      ''-c:a'', ''aac'', ''-b:a'', ''128k'', ''-ac'', ''2'', ''-ar'', ''44100'',
      ''-f'', ''flv'']"

definition ffmpegArgs :: "string \<Rightarrow> string \<Rightarrow> string \<Rightarrow> bool \<Rightarrow> string list" where
  "ffmpegArgs inputSource streamUrl streamKey shouldLoop =
     (let args0 = [''-re''];
          args1 = (if shouldLoop then args0 @ [''-stream_loop'', ''-1''] else args0)
      in args1 @ ([''-i'', normalizeInput inputSource] @ encodingArgs
                  @ [rtmpUrl streamUrl streamKey]))"

definition rtmpUrl_v1 :: "string \<Rightarrow> string \<Rightarrow> string" where
  "rtmpUrl_v1 streamUrl streamKey = streamUrl @ streamKey"

definition ffmpegArgs_v1 :: "string \<Rightarrow> string \<Rightarrow> string \<Rightarrow> string list" where
  "ffmpegArgs_v1 inputSource streamUrl streamKey =
     [''-re'', ''-i'', inputSource] @ encodingArgs @ [rtmpUrl_v1 streamUrl streamKey]"

text \<open>The line \<open>startFFmpegStream\<close> writes to the console before it spawns.\<close>

definition argsLogLine :: "string list \<Rightarrow> string" where
  "argsLogLine args = ''Starting FFmpeg with args: '' @ joinWith '' '' args"

section \<open>Rendering of exit codes\<close>

text \<open>
  Template literals print the exit code of the \<open>exit\<close> event: a number in decimal, or
  \<open>null\<close> when the process was terminated by a signal.
\<close>

definition digitChar :: "nat \<Rightarrow> char" where
  "digitChar d =
     (if d = 0 then CHR ''0'' else if d = 1 then CHR ''1'' else if d = 2 then CHR ''2''
      else if d = 3 then CHR ''3'' else if d = 4 then CHR ''4'' else if d = 5 then CHR ''5''
      else if d = 6 then CHR ''6'' else if d = 7 then CHR ''7'' else if d = 8 then CHR ''8''
      else CHR ''9'')"

function natStr :: "nat \<Rightarrow> string" where
  "natStr n = (if n < 10 then [digitChar n] else natStr (n div 10) @ [digitChar (n mod 10)])"
  by pat_completeness auto
termination
  by (relation "measure id") auto

definition intStr :: "int \<Rightarrow> string" where
  "intStr i = (if i < 0 then CHR ''-'' # natStr (nat (- i)) else natStr (nat i))"

definition codeStr :: "int option \<Rightarrow> string" where
  "codeStr code = (case code of None \<Rightarrow> ''null'' | Some i \<Rightarrow> intStr i)"

definition signalStr :: "string option \<Rightarrow> string" where
  "signalStr sg = (case sg of None \<Rightarrow> ''null'' | Some n \<Rightarrow> n)"

section \<open>Supervisor state\<close>

text \<open>
  An error value as the handlers meet it. \<open>ProcessError\<close> is the object of the child's
  \<open>error\<close> event, with its message and with the further properties Node attaches to it
  (for a failed spawn: \<open>errno\<close>, \<open>code\<close>, \<open>syscall\<close>, \<open>path\<close>, \<open>spawnargs\<close>), as one
  string. \<open>ExitedWithCode\<close> and \<open>StartTimeout\<close> are the two errors that
  \<open>startFFmpegStream\<close> creates itself, and \<open>StorageError\<close> is an error thrown by a
  storage call.
\<close>

datatype start_error =
  ProcessError string string | ExitedWithCode "int option" | StartTimeout | StorageError string

definition errorMessage :: "start_error \<Rightarrow> string" where
  "errorMessage e =
     (case e of
        ProcessError m details \<Rightarrow> m
      | ExitedWithCode code \<Rightarrow> ''FFmpeg exited with code '' @ codeStr code
      | StartTimeout \<Rightarrow> ''FFmpeg failed to start within timeout''
      | StorageError m \<Rightarrow> m)"

definition errorMessage_v1 :: "start_error \<Rightarrow> string" where
  "errorMessage_v1 e =
     (case e of
        StartTimeout \<Rightarrow> ''FFmpeg failed to start within timeout period''
      | _ \<Rightarrow> errorMessage e)"

text \<open>
  The two module-level variables \<open>currentStreamProcess\<close> and \<open>streamStatus\<close>, together
  with what the server does to the outside: the lines written with \<open>console.log\<close>, the
  calls of \<open>console.error\<close>, the signals sent through \<open>kill\<close> and the processes
  spawned. Every \<open>console.error\<close> call of the server passes a label and an Error object;
  Node prints the label followed by the inspected object (\<open>Error:\<close> and the message, the
  stack, the object's own properties), so the entry keeps the label and the object. A
  child handle carries the \<open>killed\<close> flag, which \<open>kill\<close> sets once a signal has been
  delivered to the running process. \<open>streamStatus\<close> is a JavaScript string and stays one
  here.
\<close>

datatype signal = SIGTERM | SIGKILL

record child =
  pid :: nat
  killed :: bool

record server =
  currentStreamProcess :: "child option"
  streamStatus :: string
  console :: "string list"
  consoleError :: "(string \<times> start_error) list"
  signals :: "(nat \<times> signal) list"
  spawned :: "(nat \<times> string list) list"

text \<open>
  The document of the \<open>Stream\<close> model that the current server keeps for a request
  (\<open>endedAt\<close> is reduced to whether it has been set).
\<close>

record stream_doc =
  doc_streamKey :: string
  doc_streamUrl :: string
  doc_videoSource :: string
  doc_videoPath :: string
  doc_status :: string
  doc_errorMessage :: "string option"
  doc_ended :: bool

datatype verdict = Resolved | Rejected start_error

datatype response = Send nat string | Json string string

text \<open>
  The closure of one \<open>startFFmpegStream\<close> call: its \<open>streamStarted\<close> variable and its
  promise (\<open>None\<close> while pending). With it goes the request awaiting that promise: its
  \<open>stream\<close> document (current server only), what its storage calls will do
  (\<open>storage n\<close> is \<open>None\<close> when the \<open>n\<close>-th storage call of that request returns
  normally, and the message of the error it throws otherwise), and its response once
  sent.
\<close>

record session =
  streamStarted :: bool
  promise :: "verdict option"
  stream :: "stream_doc option"
  storage :: "nat \<Rightarrow> string option"
  reply :: "response option"

definition logLine :: "string \<Rightarrow> server \<Rightarrow> server" where
  "logLine l srv = srv\<lparr>console := console srv @ [l]\<rparr>"

definition logError :: "string \<Rightarrow> start_error \<Rightarrow> server \<Rightarrow> server" where
  "logError label e srv = srv\<lparr>consoleError := consoleError srv @ [(label, e)]\<rparr>"

text \<open>A promise settles once: \<open>resolve\<close> and \<open>reject\<close> on a settled promise do nothing.\<close>

definition settle :: "verdict \<Rightarrow> session \<Rightarrow> session" where
  "settle v se = (case promise se of None \<Rightarrow> se\<lparr>promise := Some v\<rparr> | Some _ \<Rightarrow> se)"

section \<open>startFFmpegStream and its listeners\<close>

text \<open>
  Both servers log the arguments, spawn the process (\<open>newPid\<close> names the new child; the
  path of the binary plays no role here) and start with \<open>streamStarted = false\<close> and a
  pending promise; \<open>spawnFFmpeg\<close> is that common part.
\<close>

definition spawnFFmpeg :: "nat \<Rightarrow> string list \<Rightarrow> server \<Rightarrow> server \<times> session" where
  "spawnFFmpeg newPid args srv =
     (let srv1 = logLine (argsLogLine args) srv
      in (srv1\<lparr>currentStreamProcess := Some \<lparr>pid = newPid, killed = False\<rparr>,
               spawned := spawned srv1 @ [(newPid, args)]\<rparr>,
          \<lparr>streamStarted = False, promise = None, stream = None, storage = (\<lambda>n. None),
           reply = None\<rparr>))"

definition startFFmpegStream ::
  "nat \<Rightarrow> string \<Rightarrow> string \<Rightarrow> string \<Rightarrow> bool \<Rightarrow> server \<Rightarrow> server \<times> session" where
  "startFFmpegStream newPid inputSource streamUrl streamKey shouldLoop srv =
     spawnFFmpeg newPid (ffmpegArgs inputSource streamUrl streamKey shouldLoop) srv"

definition startFFmpegStream_v1 ::
  "nat \<Rightarrow> string \<Rightarrow> string \<Rightarrow> string \<Rightarrow> server \<Rightarrow> server \<times> session" where
  "startFFmpegStream_v1 newPid inputSource streamUrl streamKey srv =
     spawnFFmpeg newPid (ffmpegArgs_v1 inputSource streamUrl streamKey) srv"

definition onStdout :: "string \<Rightarrow> server \<times> session \<Rightarrow> server \<times> session" where
  "onStdout data st = (logLine (''FFmpeg stdout: '' @ data) (fst st), snd st)"

definition onStderr :: "string \<Rightarrow> server \<times> session \<Rightarrow> server \<times> session" where
  "onStderr output st =
     (let srv1 = logLine (''FFmpeg stderr: '' @ output) (fst st); se = snd st
      in if \<not> streamStarted se \<and>
            (includesStr output ''Stream mapping:'' \<or> includesStr output ''Press [q] to stop'')
         then (srv1\<lparr>streamStatus := ''live''\<rparr>, settle Resolved (se\<lparr>streamStarted := True\<rparr>))
         else (srv1, se))"

definition onError :: "string \<Rightarrow> string \<Rightarrow> server \<times> session \<Rightarrow> server \<times> session" where
  "onError msg details st =
     (let srv1 = logError ''FFmpeg process error:'' (ProcessError msg details) (fst st)
      in (srv1\<lparr>streamStatus := ''error'', currentStreamProcess := None\<rparr>,
          settle (Rejected (ProcessError msg details)) (snd st)))"

definition onExit :: "int option \<Rightarrow> string option \<Rightarrow> server \<times> session \<Rightarrow> server \<times> session" where
  "onExit code sg st =
     (let srv1 = logLine (''FFmpeg process exited with code '' @ codeStr code
                          @ '' and signal '' @ signalStr sg) (fst st);
          srv2 = (if code = Some 0 then srv1\<lparr>streamStatus := ''idle''\<rparr>
                  else if code \<noteq> None then srv1\<lparr>streamStatus := ''error''\<rparr>
                  else srv1);
          srv3 = srv2\<lparr>currentStreamProcess := None\<rparr>;
          se = snd st
      in if \<not> streamStarted se \<and> code \<noteq> Some 0
         then (srv3, settle (Rejected (ExitedWithCode code)) se)
         else (srv3, se))"

definition onTimeout :: "server \<times> session \<Rightarrow> server \<times> session" where
  "onTimeout st =
     (if \<not> streamStarted (snd st) then (fst st, settle (Rejected StartTimeout) (snd st))
      else st)"

text \<open>
  What can happen to a spawned process, the 30 second timer included. The \<open>error\<close> event
  carries the message and the further properties of its Error object.
\<close>

datatype proc_event =
  Stdout string | Stderr string | ProcError string string
  | Exit "int option" "string option" | Timeout

fun deliver :: "proc_event \<Rightarrow> server \<times> session \<Rightarrow> server \<times> session" where
  "deliver (Stdout d) st = onStdout d st"
| "deliver (Stderr d) st = onStderr d st"
| "deliver (ProcError m details) st = onError m details st"
| "deliver (Exit code sg) st = onExit code sg st"
| "deliver Timeout st = onTimeout st"

section \<open>The request awaiting startFFmpegStream\<close>

text \<open>
  The \<open>/api/go-live\<close> handler awaits the promise; what follows the \<open>await\<close> starts right
  after the listener that settled the promise. In the current server the handler also
  saves the \<open>stream\<close> document: \<open>db n\<close> tells whether the \<open>n\<close>-th storage call of the
  request returns normally (\<open>None\<close>) or throws an error with the given message. Its
  \<open>catch\<close> block awaits such a save in the middle: \<open>startCaught\<close> is the part before that
  \<open>await\<close> and \<open>startSaved\<close> the part after it, which other code can precede when the
  exit came while another handler was waiting for it.
\<close>

definition internalError :: "start_error \<Rightarrow> server \<Rightarrow> server" where
  "internalError e srv = (logError ''Error in /api/go-live:'' e srv)\<lparr>streamStatus := ''error''\<rparr>"

definition startCaught :: "start_error \<Rightarrow> server \<times> session \<Rightarrow> server \<times> session" where
  "startCaught e st =
     (logError ''Failed to start stream:'' e (fst st),
      (snd st)\<lparr>stream :=
        map_option (\<lambda>d. d\<lparr>doc_status := ''error'', doc_errorMessage := Some (errorMessage e),
                             doc_ended := True\<rparr>) (stream (snd st))\<rparr>)"

definition startSaved ::
  "(nat \<Rightarrow> string option) \<Rightarrow> nat \<Rightarrow> start_error \<Rightarrow> server \<times> session \<Rightarrow> server \<times> session" where
  "startSaved db n e st =
     (case db n of
        None \<Rightarrow> ((fst st)\<lparr>streamStatus := ''error''\<rparr>,
                 (snd st)\<lparr>reply := Some (Send 500 (''Failed to start stream: '' @ errorMessage e))\<rparr>)
      | Some m \<Rightarrow> (internalError (StorageError m) (fst st),
                   (snd st)\<lparr>reply := Some (Send 500 ''Internal server error'')\<rparr>))"

definition startFailed ::
  "(nat \<Rightarrow> string option) \<Rightarrow> nat \<Rightarrow> start_error \<Rightarrow> server \<times> session \<Rightarrow> server \<times> session" where
  "startFailed db n e st = startSaved db n e (startCaught e st)"

definition goLiveSettled ::
  "(nat \<Rightarrow> string option) \<Rightarrow> server \<times> session \<Rightarrow> server \<times> session" where
  "goLiveSettled db st =
     (case promise (snd st) of
        None \<Rightarrow> st
      | Some Resolved \<Rightarrow>
          (let se1 = (snd st)\<lparr>stream :=
                       map_option (\<lambda>d. d\<lparr>doc_status := ''live''\<rparr>) (stream (snd st))\<rparr>
           in case db 1 of
                None \<Rightarrow> (fst st, se1\<lparr>reply := Some (Json ''Stream started successfully'' ''live'')\<rparr>)
              | Some m \<Rightarrow> startFailed db 2 (StorageError m) (fst st, se1))
      | Some (Rejected e) \<Rightarrow> startFailed db 1 e st)"

text \<open>
  The two halves of the rejected case for a request whose process exits while another
  handler awaits \<open>killStreamProcess\<close>: the storage calls are those of the waiting
  request, kept in its session.
\<close>

definition goLiveCaught :: "server \<times> session \<Rightarrow> server \<times> session" where
  "goLiveCaught st =
     (case promise (snd st) of Some (Rejected e) \<Rightarrow> startCaught e st | _ \<Rightarrow> st)"

definition goLiveSaved :: "server \<times> session \<Rightarrow> server \<times> session" where
  "goLiveSaved st =
     (case promise (snd st) of
        Some (Rejected e) \<Rightarrow> startSaved (storage (snd st)) 1 e st
      | _ \<Rightarrow> st)"

definition goLiveSettled_v1 :: "server \<times> session \<Rightarrow> server \<times> session" where
  "goLiveSettled_v1 st =
     (case promise (snd st) of
        None \<Rightarrow> st
      | Some Resolved \<Rightarrow>
          (fst st, (snd st)\<lparr>reply := Some (Json ''Stream started successfully'' ''live'')\<rparr>)
      | Some (Rejected e) \<Rightarrow>
          ((logError ''Failed to start stream:'' e (fst st))\<lparr>streamStatus := ''error''\<rparr>,
           (snd st)\<lparr>reply := Some (Send 500 (''Failed to start stream: '' @ errorMessage_v1 e))\<rparr>))"

text \<open>
  One event: the listener runs, and if it settled the pending promise the continuation
  \<open>k\<close> of the waiting request follows.
\<close>

definition step ::
  "(server \<times> session \<Rightarrow> server \<times> session) \<Rightarrow> proc_event \<Rightarrow> server \<times> session
   \<Rightarrow> server \<times> session" where
  "step k ev st =
     (let st1 = deliver ev st
      in if promise (snd st) = None \<and> promise (snd st1) \<noteq> None then k st1 else st1)"

fun run ::
  "(server \<times> session \<Rightarrow> server \<times> session) \<Rightarrow> proc_event list \<Rightarrow> server \<times> session
   \<Rightarrow> server \<times> session" where
  "run k [] st = st"
| "run k (ev # evs) st = run k evs (step k ev st)"

section \<open>killStreamProcess\<close>

text \<open>
  \<open>kill\<close> on the handle of a running process delivers the signal and sets \<open>killed\<close>.
  The promise of \<open>killStreamProcess\<close> resolves at once when there is no handle or the
  handle is already marked killed (\<open>killStreamProcess_sync\<close>, the same in both
  servers); otherwise it resolves on the \<open>exit\<close> event or when the 5 second timer
  fires, whichever the process's reaction makes come first.

  On \<open>exit\<close> the listener registered by \<open>startFFmpegStream\<close> runs before the one
  registered here. If that listener rejected the promise of a go-live request still
  waiting, the request's \<open>catch\<close> block is next in the job queue, ahead of the caller of
  \<open>killStreamProcess\<close>: the earlier server's block runs to its end, the current
  server's block runs up to its \<open>await\<close> of the save (\<open>goLiveCaught\<close>), and the caller
  places the rest (\<open>goLiveSaved\<close>) after the code it runs without waiting.

  The timer callback reads the handle again. The earlier server tests it for null; the
  current server reads \<open>killed\<close> at once and throws on a null handle (\<open>None\<close> in
  \<open>forceKill\<close> and \<open>killStreamProcess_wait\<close>). Within \<open>killStreamProcess\<close> the timer
  is only set after a signal has gone to the handle, so the callback finds that handle
  and does not throw (\<open>forceKill_after_signal\<close> below).
\<close>

datatype reaction = ExitsWith "int option" "string option" | NoExit

definition sendSignal :: "signal \<Rightarrow> server \<Rightarrow> server" where
  "sendSignal sg srv =
     (case currentStreamProcess srv of
        None \<Rightarrow> srv
      | Some p \<Rightarrow> srv\<lparr>currentStreamProcess := Some (p\<lparr>killed := True\<rparr>),
                       signals := signals srv @ [(pid p, sg)]\<rparr>)"

definition killStreamProcess_sync :: "server \<Rightarrow> server \<times> bool" where
  "killStreamProcess_sync srv =
     (case currentStreamProcess srv of
        None \<Rightarrow> (srv, True)
      | Some p \<Rightarrow> if \<not> killed p then (sendSignal SIGTERM srv, False) else (srv, True))"

definition forceKill :: "server \<Rightarrow> server option" where
  "forceKill srv =
     (case currentStreamProcess srv of
        None \<Rightarrow> None
      | Some q \<Rightarrow> Some (if \<not> killed q then sendSignal SIGKILL srv else srv))"

definition forceKill_v1 :: "server \<Rightarrow> server" where
  "forceKill_v1 srv =
     (case currentStreamProcess srv of
        None \<Rightarrow> srv
      | Some q \<Rightarrow> if \<not> killed q then sendSignal SIGKILL srv else srv)"

definition exitWhileKilling ::
  "int option \<Rightarrow> string option \<Rightarrow> server \<times> session \<Rightarrow> server \<times> session" where
  "exitWhileKilling code sg st =
     (let st1 = onExit code sg st
      in ((fst st1)\<lparr>currentStreamProcess := None\<rparr>, snd st1))"

definition killStreamProcess_wait ::
  "reaction \<Rightarrow> server \<times> session \<Rightarrow> (server \<times> session) option" where
  "killStreamProcess_wait r st =
     (case r of
        ExitsWith code sg \<Rightarrow>
          (let st2 = exitWhileKilling code sg st
           in if promise (snd st) = None \<and> promise (snd st2) \<noteq> None
              then Some (goLiveCaught st2) else Some st2)
      | NoExit \<Rightarrow> map_option (\<lambda>srv1. (srv1, snd st)) (forceKill (fst st)))"

definition killStreamProcess_wait_v1 :: "reaction \<Rightarrow> server \<times> session \<Rightarrow> server \<times> session" where
  "killStreamProcess_wait_v1 r st =
     (case r of
        ExitsWith code sg \<Rightarrow>
          (let st2 = exitWhileKilling code sg st
           in if promise (snd st) = None \<and> promise (snd st2) \<noteq> None then goLiveSettled_v1 st2
              else st2)
      | NoExit \<Rightarrow> (forceKill_v1 (fst st), snd st))"

definition killStreamProcess :: "reaction \<Rightarrow> server \<times> session \<Rightarrow> server \<times> session" where
  "killStreamProcess r st =
     (let (srv1, resolved) = killStreamProcess_sync (fst st)
      in if resolved then (srv1, snd st)
         else (case killStreamProcess_wait r (srv1, snd st) of
                 Some st2 \<Rightarrow> st2
               | None \<Rightarrow> (srv1, snd st)))"

definition killStreamProcess_v1 :: "reaction \<Rightarrow> server \<times> session \<Rightarrow> server \<times> session" where
  "killStreamProcess_v1 r st =
     (let (srv1, resolved) = killStreamProcess_sync (fst st)
      in if resolved then (srv1, snd st) else killStreamProcess_wait_v1 r (srv1, snd st))"

text \<open>
  Whether the exit awaited by \<open>killStreamProcess\<close> has rejected a request that was
  still waiting: \<open>before\<close> is the state at the call, \<open>after\<close> the state when the
  promise of \<open>killStreamProcess\<close> has resolved.
\<close>

definition rejectedWhileKilling :: "server \<times> session \<Rightarrow> server \<times> session \<Rightarrow> bool" where
  "rejectedWhileKilling before after = (promise (snd before) = None \<and> promise (snd after) \<noteq> None)"

section \<open>Routes\<close>

text \<open>
  A request as the handlers read it: the body fields (absent, or a string; \<open>loopVideo\<close>
  may also be a boolean) and the path of the uploaded file. A field is falsy when it is
  absent or empty.
\<close>

datatype field = Undefined | Str string | Boolean bool

record request =
  body_streamUrl :: "string option"
  body_streamKey :: "string option"
  body_videoLink :: "string option"
  body_loopVideo :: field
  file_path :: "string option"

definition truthy :: "string option \<Rightarrow> bool" where
  "truthy v = (case v of None \<Rightarrow> False | Some s \<Rightarrow> s \<noteq> [])"

definition shouldLoop :: "field \<Rightarrow> bool" where
  "shouldLoop v = (v = Str ''true'' \<or> v = Boolean True)"

definition chooseInput :: "request \<Rightarrow> server \<Rightarrow> (string \<times> string \<times> server) option" where
  "chooseInput req srv =
     (case file_path req of
        Some p \<Rightarrow> Some (p, ''file'', logLine (''Using uploaded file: '' @ p) srv)
      | None \<Rightarrow>
          (case body_videoLink req of
             None \<Rightarrow> None
           | Some l \<Rightarrow> if l \<noteq> [] then Some (l, ''url'', logLine (''Using video URL: '' @ l) srv)
                       else None))"

text \<open>
  \<open>/api/go-live\<close>, current server. \<open>goLive_entry\<close> is the handler up to its first
  \<open>await\<close>: the test of URL and key, and the call of \<open>killStreamProcess\<close> when a handle
  is held (the boolean tells whether that promise is already resolved).
  \<open>goLive_resume\<close> is the handler from there to its \<open>await\<close> of \<open>startFFmpegStream\<close>;
  \<open>caught\<close> tells that the awaited exit rejected a request still waiting, whose
  \<open>catch\<close> block then finishes (\<open>goLiveSaved\<close>) while this handler awaits its own save
  or after it has answered. \<open>goLive\<close> is the whole handler when nothing else runs in
  between. The state keeps the session of the latest process.
\<close>

definition goLive_entry :: "request \<Rightarrow> server \<Rightarrow> response + server \<times> bool" where
  "goLive_entry req srv =
     (if \<not> truthy (body_streamUrl req) \<or> \<not> truthy (body_streamKey req)
      then Inl (Send 400 ''Stream URL and Stream Key are required'')
      else if currentStreamProcess srv \<noteq> None then Inr (killStreamProcess_sync srv)
      else Inr (srv, True))"

definition goLive_resume ::
  "(nat \<Rightarrow> string option) \<Rightarrow> request \<Rightarrow> nat \<Rightarrow> bool \<Rightarrow> server \<times> session
   \<Rightarrow> (server \<times> session) \<times> response option" where
  "goLive_resume db req newPid caught st1 =
     (let url = (case body_streamUrl req of Some u \<Rightarrow> u | None \<Rightarrow> []);
          key = (case body_streamKey req of Some k \<Rightarrow> k | None \<Rightarrow> []);
          srv2 = (fst st1)\<lparr>streamStatus := ''starting''\<rparr>
      in case chooseInput req srv2 of
           None \<Rightarrow>
             ((if caught then goLiveSaved (srv2, snd st1) else (srv2, snd st1)),
              Some (Send 400 ''Either video file or video link is required''))
         | Some (inputSource, videoSource, srv3) \<Rightarrow>
             if \<not> includesStr url ''rtmp://''
             then ((if caught then goLiveSaved (srv3, snd st1) else (srv3, snd st1)),
                   Some (Send 400 ''Invalid RTMP stream URL''))
             else
               (let st4 = (if caught then goLiveSaved (srv3, snd st1) else (srv3, snd st1))
                in case db 0 of
                     Some m \<Rightarrow>
                       ((internalError (StorageError m) (fst st4), snd st4),
                        Some (Send 500 ''Internal server error''))
                   | None \<Rightarrow>
                       (let (srv5, se5) =
                              startFFmpegStream newPid inputSource url key
                                (shouldLoop (body_loopVideo req)) (fst st4)
                        in ((srv5,
                             se5\<lparr>stream := Some \<lparr>doc_streamKey = key, doc_streamUrl = url,
                                    doc_videoSource = videoSource, doc_videoPath = inputSource,
                                    doc_status = ''starting'', doc_errorMessage = None,
                                    doc_ended = False\<rparr>,
                                 storage := db\<rparr>), None))))"

definition goLive ::
  "(nat \<Rightarrow> string option) \<Rightarrow> request \<Rightarrow> reaction \<Rightarrow> nat \<Rightarrow> server \<times> session
   \<Rightarrow> (server \<times> session) \<times> response option" where
  "goLive db req r newPid st =
     (if \<not> truthy (body_streamUrl req) \<or> \<not> truthy (body_streamKey req)
      then (st, Some (Send 400 ''Stream URL and Stream Key are required''))
      else
        (let st1 = (if currentStreamProcess (fst st) \<noteq> None then killStreamProcess r st else st)
         in goLive_resume db req newPid (rejectedWhileKilling st st1) st1))"

text \<open>
  The earlier server: no storage call, so the handler runs from the resolved
  \<open>killStreamProcess\<close> to \<open>startFFmpegStream\<close> without waiting.
\<close>

definition goLive_resume_v1 ::
  "request \<Rightarrow> nat \<Rightarrow> server \<times> session \<Rightarrow> (server \<times> session) \<times> response option" where
  "goLive_resume_v1 req newPid st1 =
     (let url = (case body_streamUrl req of Some u \<Rightarrow> u | None \<Rightarrow> []);
          key = (case body_streamKey req of Some k \<Rightarrow> k | None \<Rightarrow> []);
          srv2 = (fst st1)\<lparr>streamStatus := ''starting''\<rparr>
      in case chooseInput req srv2 of
           None \<Rightarrow>
             ((srv2, snd st1), Some (Send 400 ''Either video file or video link is required''))
         | Some (inputSource, videoSource, srv3) \<Rightarrow>
             if \<not> includesStr url ''rtmp://''
             then ((srv3, snd st1), Some (Send 400 ''Invalid RTMP stream URL''))
             else (startFFmpegStream_v1 newPid inputSource url key srv3, None))"

definition goLive_v1 ::
  "request \<Rightarrow> reaction \<Rightarrow> nat \<Rightarrow> server \<times> session \<Rightarrow> (server \<times> session) \<times> response option" where
  "goLive_v1 req r newPid st =
     (if \<not> truthy (body_streamUrl req) \<or> \<not> truthy (body_streamKey req)
      then (st, Some (Send 400 ''Stream URL and Stream Key are required''))
      else
        (let st1 = (if currentStreamProcess (fst st) \<noteq> None then killStreamProcess_v1 r st
                    else st)
         in goLive_resume_v1 req newPid st1))"

text \<open>
  \<open>/api/stop\<close>. In the current server \<open>found\<close> is the result of the \<open>findOne\<close> query for
  the user's live stream (storage call 0), saved as \<open>stopping\<close> before the kill (call 1)
  and as \<open>stopped\<close> after it (call 2); an error thrown by a storage call ends the handler
  in its \<open>catch\<close> block. When the awaited exit rejected a go-live request still waiting,
  that request's save was started before this handler went on, and is taken to finish
  (\<open>goLiveSaved\<close>) before this handler's next storage call does. The removal of old
  uploads that follows has a \<open>try\<close> of its own and touches neither variable; it is left
  out.
\<close>

definition stopFailed :: "string \<Rightarrow> server \<Rightarrow> server" where
  "stopFailed m srv = logError ''Error stopping stream:'' (StorageError m) srv"

definition apiStop ::
  "(nat \<Rightarrow> string option) \<Rightarrow> stream_doc option \<Rightarrow> reaction \<Rightarrow> server \<times> session
   \<Rightarrow> (server \<times> session) \<times> stream_doc option \<times> response" where
  "apiStop db found r st =
     (let srv1 = (fst st)\<lparr>streamStatus := ''stopping''\<rparr>
      in case db 0 of
           Some m \<Rightarrow> ((stopFailed m srv1, snd st), None, Send 500 ''Failed to stop stream'')
         | None \<Rightarrow>
             (let doc1 = map_option (\<lambda>d. d\<lparr>doc_status := ''stopping''\<rparr>) found
              in case (if found \<noteq> None then db 1 else None) of
                   Some m \<Rightarrow> ((stopFailed m srv1, snd st), doc1, Send 500 ''Failed to stop stream'')
                 | None \<Rightarrow>
                     (let st2 = killStreamProcess r (srv1, snd st);
                          st3 = ((fst st2)\<lparr>streamStatus := ''idle''\<rparr>, snd st2);
                          st4 = (if rejectedWhileKilling st st2 then goLiveSaved st3 else st3);
                          doc2 = map_option
                                   (\<lambda>d. d\<lparr>doc_status := ''stopped'', doc_ended := True\<rparr>) doc1
                      in case (if found \<noteq> None then db 2 else None) of
                           Some m \<Rightarrow>
                             ((stopFailed m (fst st4), snd st4), doc2,
                              Send 500 ''Failed to stop stream'')
                         | None \<Rightarrow>
                             (st4, doc2, Json ''Stream stopped successfully'' ''idle''))))"

definition apiStop_v1 ::
  "reaction \<Rightarrow> server \<times> session \<Rightarrow> (server \<times> session) \<times> response" where
  "apiStop_v1 r st =
     (let srv1 = (fst st)\<lparr>streamStatus := ''stopping''\<rparr>;
          st2 = killStreamProcess_v1 r (srv1, snd st);
          srv3 = (fst st2)\<lparr>streamStatus := ''idle''\<rparr>
      in ((srv3, snd st2), Json ''Stream stopped successfully'' ''idle''))"

text \<open>\<open>/api/status\<close>: the status string and whether a handle is held.\<close>

definition apiStatus :: "server \<Rightarrow> string \<times> bool" where
  "apiStatus srv = (streamStatus srv, currentStreamProcess srv \<noteq> None)"

text \<open>
  In every state the listeners produce, a session whose \<open>streamStarted\<close> flag is set has
  a settled promise (the flag is only set together with \<open>resolve\<close>).
\<close>

definition readyIsSettled :: "server \<times> session \<Rightarrow> bool" where
  "readyIsSettled st = (streamStarted (snd st) \<longrightarrow> promise (snd st) \<noteq> None)"

text \<open>
  Whether \<open>/api/stop\<close>, called in state \<open>st\<close> with the process reacting by \<open>r\<close>, makes
  the exit listener reject a go-live request still waiting: a handle not yet marked
  killed, no ready verdict, a pending promise, and an exit with a code other than 0.
\<close>

definition exitRejectsPending :: "reaction \<Rightarrow> server \<times> session \<Rightarrow> bool" where
  "exitRejectsPending r st =
     (case currentStreamProcess (fst st) of
        None \<Rightarrow> False
      | Some p \<Rightarrow>
          (if killed p \<or> streamStarted (snd st) \<or> promise (snd st) \<noteq> None then False
           else (case r of ExitsWith code sg \<Rightarrow> code \<noteq> Some 0 | NoExit \<Rightarrow> False)))"

section \<open>A sample run\<close>

text \<open>
  The server as it starts (\<open>currentStreamProcess = null\<close>, \<open>streamStatus = "idle"\<close>), a
  request for a looped remote video, the state once its process has been spawned, and the
  state once FFmpeg has printed its stream mapping. A second request, for another video,
  serves where two requests meet.
\<close>

definition initialServer :: server where
  "initialServer = \<lparr>currentStreamProcess = None, streamStatus = ''idle'', console = [],
                     consoleError = [], signals = [], spawned = []\<rparr>"

definition noDbError :: "nat \<Rightarrow> string option" where
  "noDbError n = None"

definition noSession :: session where
  "noSession = \<lparr>streamStarted = False, promise = None, stream = None, storage = noDbError,
                 reply = None\<rparr>"

definition exampleRequest :: request where
  "exampleRequest = \<lparr>body_streamUrl = Some ''rtmp://a.rtmp.youtube.com/live2'',
     body_streamKey = Some ''abcd-1234'', body_videoLink = Some ''https://example.com/clip.mp4'',
     body_loopVideo = Str ''true'', file_path = None\<rparr>"

definition otherRequest :: request where
  "otherRequest = \<lparr>body_streamUrl = Some ''rtmp://a.rtmp.youtube.com/live2'',
     body_streamKey = Some ''abcd-1234'', body_videoLink = Some ''https://example.com/next.mp4'',
     body_loopVideo = Undefined, file_path = None\<rparr>"

definition startingState :: "server \<times> session" where
  "startingState = fst (goLive noDbError exampleRequest NoExit 1 (initialServer, noSession))"

definition liveState :: "server \<times> session" where
  "liveState = run (goLiveSettled noDbError) [Stderr ''Stream mapping:''] startingState"

text \<open>
  A storage layer whose query fails, and two go-live requests that meet: the first
  (\<open>otherRequest\<close>) arrives while a stream is live and waits for the exit of its process
  (\<open>raceEntered\<close>); the second (\<open>exampleRequest\<close>) arrives during that wait and runs up
  to its \<open>await\<close> of \<open>startFFmpegStream\<close> (\<open>raceSecondStarted\<close>); then the old process
  exits (\<open>raceExited\<close>) and the first request resumes (\<open>raceFirstResumed\<close>).
\<close>

definition dbFindFails :: "nat \<Rightarrow> string option" where
  "dbFindFails n = (if n = 0 then Some ''connection lost'' else None)"

definition raceEntered :: server where
  "raceEntered = fst (killStreamProcess_sync (fst liveState))"

definition raceSecondStarted :: "server \<times> session" where
  "raceSecondStarted = fst (goLive noDbError exampleRequest NoExit 2 (raceEntered, snd liveState))"

definition raceExited :: "server \<times> session" where
  "raceExited = exitWhileKilling None (Some ''SIGTERM'') (fst raceSecondStarted, snd liveState)"

definition raceFirstResumed :: "server \<times> session" where
  "raceFirstResumed = fst (goLive_resume noDbError otherRequest 3 False raceExited)"

definition raceSecondStarted_v1 :: "server \<times> session" where
  "raceSecondStarted_v1 = fst (goLive_v1 exampleRequest NoExit 2 (raceEntered, snd liveState))"

definition raceExited_v1 :: "server \<times> session" where
  "raceExited_v1 =
     exitWhileKilling None (Some ''SIGTERM'') (fst raceSecondStarted_v1, snd liveState)"

definition raceFirstResumed_v1 :: "server \<times> session" where
  "raceFirstResumed_v1 = fst (goLive_resume_v1 otherRequest 3 raceExited_v1)"

section \<open>Basic facts\<close>

lemmas builder_defs = ffmpegArgs_def ffmpegArgs_v1_def encodingArgs_def rtmpUrl_def rtmpUrl_v1_def
  normalizeInput_def startsWith_def argsLogLine_def

lemmas listener_defs = onStdout_def onStderr_def onError_def onExit_def onTimeout_def
  settle_def logLine_def logError_def

lemmas continuation_defs = goLiveSettled_def goLiveSettled_v1_def startFailed_def startCaught_def
  startSaved_def internalError_def goLiveCaught_def goLiveSaved_def

lemmas kill_defs = killStreamProcess_def killStreamProcess_v1_def killStreamProcess_sync_def
  killStreamProcess_wait_def killStreamProcess_wait_v1_def exitWhileKilling_def forceKill_def
  forceKill_v1_def sendSignal_def rejectedWhileKilling_def

lemmas route_defs = goLive_def goLive_v1_def goLive_resume_def goLive_resume_v1_def
  goLive_entry_def chooseInput_def truthy_def shouldLoop_def startFFmpegStream_def
  startFFmpegStream_v1_def spawnFFmpeg_def

lemmas example_defs = initialServer_def noSession_def noDbError_def exampleRequest_def
  otherRequest_def

lemma startingState_eq:
  "startingState =
    (\<lparr>currentStreamProcess = Some \<lparr>pid = 1, killed = False\<rparr>, streamStatus = ''starting'',
      console = [''Using video URL: https://example.com/clip.mp4'',
        ''Starting FFmpeg with args: -re -stream_loop -1 -i https://example.com/clip.mp4 -c:v libx264 -preset veryfast -maxrate 3000k -bufsize 6000k -pix_fmt yuv420p -g 50 -c:a aac -b:a 128k -ac 2 -ar 44100 -f flv rtmp://a.rtmp.youtube.com/live2/abcd-1234''],
      consoleError = [], signals = [],
      spawned = [(1, [''-re'', ''-stream_loop'', ''-1'', ''-i'', ''https://example.com/clip.mp4'',
        ''-c:v'', ''libx264'', ''-preset'', ''veryfast'', ''-maxrate'', ''3000k'',
        ''-bufsize'', ''6000k'', ''-pix_fmt'', ''yuv420p'', ''-g'', ''50'', ''-c:a'', ''aac'',
        ''-b:a'', ''128k'', ''-ac'', ''2'', ''-ar'', ''44100'', ''-f'', ''flv'',
        ''rtmp://a.rtmp.youtube.com/live2/abcd-1234''])]\<rparr>,
     \<lparr>streamStarted = False, promise = None,
      stream = Some \<lparr>doc_streamKey = ''abcd-1234'',
        doc_streamUrl = ''rtmp://a.rtmp.youtube.com/live2'', doc_videoSource = ''url'',
        doc_videoPath = ''https://example.com/clip.mp4'', doc_status = ''starting'',
        doc_errorMessage = None, doc_ended = False\<rparr>,
      storage = noDbError, reply = None\<rparr>)"
  by (simp add: startingState_def route_defs example_defs builder_defs logLine_def
      rejectedWhileKilling_def Let_def)

lemma liveState_eq:
  "liveState =
    (\<lparr>currentStreamProcess = Some \<lparr>pid = 1, killed = False\<rparr>, streamStatus = ''live'',
      console = console (fst startingState) @ [''FFmpeg stderr: Stream mapping:''],
      consoleError = [], signals = [], spawned = spawned (fst startingState)\<rparr>,
     \<lparr>streamStarted = True, promise = Some Resolved,
      stream = Some \<lparr>doc_streamKey = ''abcd-1234'',
        doc_streamUrl = ''rtmp://a.rtmp.youtube.com/live2'', doc_videoSource = ''url'',
        doc_videoPath = ''https://example.com/clip.mp4'', doc_status = ''live'',
        doc_errorMessage = None, doc_ended = False\<rparr>,
      storage = noDbError, reply = Some (Json ''Stream started successfully'' ''live'')\<rparr>)"
  by (simp add: liveState_def startingState_eq step_def listener_defs goLiveSettled_def
      noDbError_def startsWith_def Let_def)


lemma startsWith_drive: "startsWith s ''C:'' = (take 2 s = ''C:'')"
  by (simp add: startsWith_def numeral_2_eq_2)

lemma replaceTrailingSlash_eq:
  "replaceTrailingSlash u = (if u \<noteq> [] \<and> last u = CHR ''/'' then u else u @ ''/'')"
  by (induction u) auto

lemma forceKill_after_signal:
  "killStreamProcess_sync srv = (srv1, False) \<Longrightarrow> forceKill srv1 = Some srv1"
  by (auto simp: killStreamProcess_sync_def forceKill_def sendSignal_def
      split: option.splits if_splits)

lemma goLive_phases:
  "goLive db req r newPid st =
     (case goLive_entry req (fst st) of
        Inl resp \<Rightarrow> (st, Some resp)
      | Inr (srv1, resolved) \<Rightarrow>
          (let st1 = (if resolved then (srv1, snd st)
                      else (case killStreamProcess_wait r (srv1, snd st) of
                              Some st2 \<Rightarrow> st2 | None \<Rightarrow> (srv1, snd st)))
           in goLive_resume db req newPid (rejectedWhileKilling st st1) st1))"
  by (auto simp: goLive_def goLive_entry_def killStreamProcess_def killStreamProcess_sync_def
      Let_def split: option.splits prod.splits)

lemma goLive_v1_phases:
  "goLive_v1 req r newPid st =
     (case goLive_entry req (fst st) of
        Inl resp \<Rightarrow> (st, Some resp)
      | Inr (srv1, resolved) \<Rightarrow>
          goLive_resume_v1 req newPid
            (if resolved then (srv1, snd st) else killStreamProcess_wait_v1 r (srv1, snd st)))"
  by (auto simp: goLive_v1_def goLive_entry_def killStreamProcess_v1_def killStreamProcess_sync_def
      Let_def split: option.splits prod.splits)

lemma joinWith_snoc: "xs \<noteq> [] \<Longrightarrow> joinWith sep (xs @ [x]) = joinWith sep xs @ sep @ x"
  by (induction sep xs rule: joinWith.induct) auto

lemma argsLogLine_ends_with_key:
  "\<exists>p. argsLogLine (ffmpegArgs i u k l) = p @ k \<and> (\<forall>k'. argsLogLine (ffmpegArgs i u k' l) = p @ k')"
proof -
  let ?front = "(if l then [''-re'', ''-stream_loop'', ''-1''] else [''-re''])
                 @ [''-i'', normalizeInput i] @ encodingArgs"
  have args: "ffmpegArgs i u k' l = ?front @ [rtmpUrl u k']" for k'
    by (simp add: ffmpegArgs_def Let_def)
  have "argsLogLine (ffmpegArgs i u k' l) =
          (''Starting FFmpeg with args: '' @ joinWith '' '' ?front @ '' '' @ replaceTrailingSlash u) @ k'"
    for k'
    unfolding args argsLogLine_def by (subst joinWith_snoc) (simp_all add: rtmpUrl_def)
  then show ?thesis by blast
qed

section \<open>Verdicts of a session\<close>

text \<open>
  The continuations leave the promise and the \<open>streamStarted\<close> flag alone, a settled
  promise stays as it is, and the 30 second timer settles whatever is still pending.
\<close>

lemma deliver_keeps_settled:
  "promise (snd st) = Some v \<Longrightarrow> promise (snd (deliver ev st)) = Some v"
  by (cases ev) (auto simp: listener_defs Let_def)

lemma goLiveSettled_promise:
  "promise (snd (goLiveSettled db st)) = promise (snd st)"
  by (auto simp: continuation_defs Let_def split: option.splits verdict.splits)

lemma goLiveSettled_started:
  "streamStarted (snd (goLiveSettled db st)) = streamStarted (snd st)"
  by (auto simp: continuation_defs Let_def split: option.splits verdict.splits)

lemma goLiveSettled_v1_promise:
  "promise (snd (goLiveSettled_v1 st)) = promise (snd st)"
  by (auto simp: goLiveSettled_v1_def split: option.splits verdict.splits)

lemma goLiveSettled_v1_started:
  "streamStarted (snd (goLiveSettled_v1 st)) = streamStarted (snd st)"
  by (auto simp: goLiveSettled_v1_def split: option.splits verdict.splits)

lemmas continuation_keeps = goLiveSettled_promise goLiveSettled_started
  goLiveSettled_v1_promise goLiveSettled_v1_started

lemma step_keeps_settled:
  assumes "k = goLiveSettled db \<or> k = goLiveSettled_v1" and "promise (snd st) = Some v"
  shows "promise (snd (step k ev st)) = Some v"
  using assms deliver_keeps_settled [of st v ev] by (auto simp: step_def Let_def)

lemma run_keeps_settled:
  assumes "k = goLiveSettled db \<or> k = goLiveSettled_v1"
  shows "promise (snd st) = Some v \<Longrightarrow> promise (snd (run k evs st)) = Some v"
proof (induction evs arbitrary: st)
  case Nil
  then show ?case by simp
next
  case (Cons ev evs)
  from Cons.prems have "promise (snd (step k ev st)) = Some v"
    by (rule step_keeps_settled [OF assms])
  then show ?case using Cons.IH by simp
qed

lemma run_append: "run k (xs @ ys) st = run k ys (run k xs st)"
  by (induction xs arbitrary: st) simp_all

lemma deliver_readyIsSettled:
  "readyIsSettled st \<Longrightarrow> readyIsSettled (deliver ev st)"
  by (cases ev) (auto simp: readyIsSettled_def listener_defs Let_def split: option.splits)

lemma step_readyIsSettled:
  assumes "k = goLiveSettled db \<or> k = goLiveSettled_v1" and "readyIsSettled st"
  shows "readyIsSettled (step k ev st)"
  using assms deliver_readyIsSettled [of st ev]
  by (auto simp: step_def Let_def readyIsSettled_def continuation_keeps)

lemma timeout_settles:
  assumes "k = goLiveSettled db \<or> k = goLiveSettled_v1" and "readyIsSettled st"
  shows "promise (snd (step k Timeout st)) \<noteq> None"
  using assms
  by (auto simp: step_def Let_def readyIsSettled_def listener_defs continuation_keeps
      split: option.splits)

lemma run_timeout_settles:
  assumes "k = goLiveSettled db \<or> k = goLiveSettled_v1"
  shows "readyIsSettled st \<Longrightarrow> Timeout \<in> set evs \<Longrightarrow> promise (snd (run k evs st)) \<noteq> None"
proof (induction evs arbitrary: st)
  case Nil
  then show ?case by simp
next
  case (Cons ev evs)
  have inv: "readyIsSettled (step k ev st)"
    using assms Cons.prems(1) by (rule step_readyIsSettled)
  show ?case
  proof (cases "ev = Timeout")
    case True
    then obtain v where "promise (snd (step k ev st)) = Some v"
      using timeout_settles [OF assms Cons.prems(1)] by auto
    then have "promise (snd (run k evs (step k ev st))) = Some v"
      by (rule run_keeps_settled [OF assms])
    then show ?thesis by simp
  next
    case False
    then have "Timeout \<in> set evs" using Cons.prems(2) by simp
    then show ?thesis using Cons.IH [OF inv] by simp
  qed
qed

section \<open>The command builder\<close>

text \<open>
  C4. The argument sequence is a function of the input source, the stream URL and key, and
  the loop flag: \<open>-re\<close> first; with the loop flag set, \<open>-stream_loop -1\<close> next and before
  \<open>-i\<close>; then \<open>-i\<close> and the input (with its backslashes turned into slashes when it
  starts with \<open>C:\<close>); the fixed libx264/aac parameters (\<open>-maxrate 3000k\<close> with
  \<open>-bufsize 6000k\<close>, \<open>-pix_fmt yuv420p\<close>, \<open>-g 50\<close>, \<open>-b:a 128k\<close>, \<open>-ac 2\<close>,
  \<open>-ar 44100\<close>); \<open>-f flv\<close>; and last the destination URL, which is the stream URL,
  a slash if it does not end in one, and the stream key. The earlier server builds the
  same sequence without the loop flag, with the input as given and the destination as the
  stream URL followed by the key.
\<close>

theorem ffmpegArgs_sequence:
  "ffmpegArgs inputSource streamUrl streamKey loop =
     [''-re''] @ (if loop then [''-stream_loop'', ''-1''] else []) @
     [''-i'',
      (if take 2 inputSource = ''C:''
       then map (\<lambda>c. if c = CHR 0x5C then CHR ''/'' else c) inputSource else inputSource),
      ''-c:v'', ''libx264'', ''-preset'', ''veryfast'', ''-maxrate'', ''3000k'',
      ''-bufsize'', ''6000k'', ''-pix_fmt'', ''yuv420p'', ''-g'', ''50'',
      ''-c:a'', ''aac'', ''-b:a'', ''128k'', ''-ac'', ''2'', ''-ar'', ''44100'',
      ''-f'', ''flv'',
      (if streamUrl \<noteq> [] \<and> last streamUrl = CHR ''/'' then streamUrl else streamUrl @ ''/'')
        @ streamKey]
   \<and> hd (ffmpegArgs inputSource streamUrl streamKey loop) = ''-re''
   \<and> last (ffmpegArgs inputSource streamUrl streamKey loop) =
       (if streamUrl \<noteq> [] \<and> last streamUrl = CHR ''/'' then streamUrl else streamUrl @ ''/'')
         @ streamKey
   \<and> take 4 (ffmpegArgs inputSource streamUrl streamKey True) =
       [''-re'', ''-stream_loop'', ''-1'', ''-i'']
   \<and> take 2 (ffmpegArgs inputSource streamUrl streamKey False) = [''-re'', ''-i'']
   \<and> ffmpegArgs_v1 inputSource streamUrl streamKey =
       [''-re'', ''-i'', inputSource,
        ''-c:v'', ''libx264'', ''-preset'', ''veryfast'', ''-maxrate'', ''3000k'',
        ''-bufsize'', ''6000k'', ''-pix_fmt'', ''yuv420p'', ''-g'', ''50'',
        ''-c:a'', ''aac'', ''-b:a'', ''128k'', ''-ac'', ''2'', ''-ar'', ''44100'',
        ''-f'', ''flv'', streamUrl @ streamKey]"
  by (simp add: ffmpegArgs_def ffmpegArgs_v1_def encodingArgs_def rtmpUrl_def rtmpUrl_v1_def
      normalizeInput_def startsWith_drive replaceBackslashes_def backslash_def
      replaceTrailingSlash_eq Let_def)

theorem ffmpegArgs_sequence_witness:
  "ffmpegArgs ''clip.mp4'' ''rtmp://a.rtmp.youtube.com/live2'' ''abcd-1234'' True =
     [''-re'', ''-stream_loop'', ''-1'', ''-i'', ''clip.mp4'',
      ''-c:v'', ''libx264'', ''-preset'', ''veryfast'', ''-maxrate'', ''3000k'',
      ''-bufsize'', ''6000k'', ''-pix_fmt'', ''yuv420p'', ''-g'', ''50'',
      ''-c:a'', ''aac'', ''-b:a'', ''128k'', ''-ac'', ''2'', ''-ar'', ''44100'',
      ''-f'', ''flv'', ''rtmp://a.rtmp.youtube.com/live2/abcd-1234'']
   \<and> last (ffmpegArgs (''C:'' @ [CHR 0x5C] @ ''clip.mp4'') ''rtmp://a.rtmp.youtube.com/live2/''
              ''abcd-1234'' False) = ''rtmp://a.rtmp.youtube.com/live2/abcd-1234''
   \<and> ffmpegArgs (''C:'' @ [CHR 0x5C] @ ''clip.mp4'') ''rtmp://a.rtmp.youtube.com/live2/''
              ''abcd-1234'' False ! 2 = ''C:/clip.mp4''"
  using ffmpegArgs_sequence [of "''clip.mp4''" "''rtmp://a.rtmp.youtube.com/live2''"
      "''abcd-1234''" True]
    ffmpegArgs_sequence [of "''C:'' @ [CHR 0x5C] @ ''clip.mp4''"
      "''rtmp://a.rtmp.youtube.com/live2/''" "''abcd-1234''" False]
  by simp





text \<open>
  C8, at a concrete start. The line written before the spawn joins all arguments, the
  destination URL with the stream key among them: the key \<open>abcd-1234\<close> is on the console,
  and the same start with another key writes another line. Both servers do so.
\<close>

theorem stream_key_logged:
  "console (fst (startFFmpegStream 1 ''clip.mp4'' ''rtmp://a.rtmp.youtube.com/live2'' ''abcd-1234''
                   False initialServer)) =
     [''Starting FFmpeg with args: -re -i clip.mp4 -c:v libx264 -preset veryfast -maxrate 3000k -bufsize 6000k -pix_fmt yuv420p -g 50 -c:a aac -b:a 128k -ac 2 -ar 44100 -f flv rtmp://a.rtmp.youtube.com/live2/abcd-1234'']
   \<and> console (fst (startFFmpegStream 1 ''clip.mp4'' ''rtmp://a.rtmp.youtube.com/live2'' ''wxyz-9876''
                   False initialServer)) \<noteq>
     console (fst (startFFmpegStream 1 ''clip.mp4'' ''rtmp://a.rtmp.youtube.com/live2'' ''abcd-1234''
                   False initialServer))
   \<and> console (fst (startFFmpegStream_v1 1 ''clip.mp4'' ''rtmp://a.rtmp.youtube.com/live2/''
                   ''abcd-1234'' initialServer)) =
     [''Starting FFmpeg with args: -re -i clip.mp4 -c:v libx264 -preset veryfast -maxrate 3000k -bufsize 6000k -pix_fmt yuv420p -g 50 -c:a aac -b:a 128k -ac 2 -ar 44100 -f flv rtmp://a.rtmp.youtube.com/live2/abcd-1234'']"
  by (simp add: startFFmpegStream_def startFFmpegStream_v1_def spawnFFmpeg_def builder_defs
      logLine_def initialServer_def Let_def)

section \<open>Exit of a live process\<close>

text \<open>
  C1, as the code has it. When the process of a live session exits, the \<open>exit\<close> listener
  logs the exit code and the signal and releases the handle; the status becomes
  \<open>error\<close> for a non-zero exit code, \<open>idle\<close> for exit code 0, and stays \<open>live\<close> when
  the process was terminated by a signal (exit code \<open>null\<close>). No verdict is issued and
  nothing is restarted.
\<close>

theorem exit_while_live:
  assumes "streamStatus srv = ''live''" and "streamStarted se"
  shows "step k (Exit code sg) (srv, se) =
    (srv\<lparr>console := console srv @ [''FFmpeg process exited with code '' @ codeStr code
                                      @ '' and signal '' @ signalStr sg],
          streamStatus := (if code = Some 0 then ''idle''
                           else if code = None then ''live'' else ''error''),
          currentStreamProcess := None\<rparr>, se)"
  using assms by (auto simp: step_def listener_defs Let_def)

theorem exit_while_live_witness:
  "streamStatus (fst liveState) = ''live'' \<and> streamStarted (snd liveState)
   \<and> streamStatus (fst (step (goLiveSettled noDbError) (Exit (Some 1) None) liveState)) = ''error''
   \<and> currentStreamProcess (fst (step (goLiveSettled noDbError) (Exit (Some 1) None) liveState))
       = None
   \<and> last (console (fst (step (goLiveSettled noDbError) (Exit (Some 1) None) liveState)))
       = ''FFmpeg process exited with code 1 and signal null''"
  using exit_while_live [of "fst liveState" "snd liveState" "goLiveSettled noDbError" "Some 1" None]
  by (simp add: liveState_eq codeStr_def intStr_def digitChar_def signalStr_def)

theorem exit_while_live_counterexample:
  "streamStatus (fst liveState) = ''live''
   \<and> streamStatus (fst (step (goLiveSettled noDbError) (Exit None (Some ''SIGKILL'')) liveState))
       = ''live''
   \<and> currentStreamProcess
        (fst (step (goLiveSettled noDbError) (Exit None (Some ''SIGKILL'')) liveState)) = None
   \<and> streamStatus (fst (step (goLiveSettled noDbError) (Exit (Some 0) None) liveState)) = ''idle''"
  by (simp add: liveState_eq step_def listener_defs Let_def)




section \<open>Readiness verdicts\<close>

text \<open>
  C3, as the code has it. For a process that exits while no ready verdict has fired and
  the promise of the start is still pending: a non-zero or \<open>null\<close> exit code rejects the
  promise with that code, and the request is answered with it; exit code 0 issues no
  verdict and no answer, and the timer then rejects with the timeout error. Once the
  timer has fired the promise has a verdict, and it keeps the first one issued: an exit
  or a readiness line arriving after the timed-out verdict leaves that verdict in place,
  although the readiness line still marks the session started and sets the status to
  \<open>live\<close>.
\<close>

theorem start_verdicts:
  assumes "k = goLiveSettled db \<or> k = goLiveSettled_v1"
    and "\<not> streamStarted se" and "promise se = None"
  shows "(code \<noteq> Some 0 \<longrightarrow>
            promise (snd (step k (Exit code sg) (srv, se))) = Some (Rejected (ExitedWithCode code)))
     \<and> (code \<noteq> Some 0 \<and> db 1 = None \<longrightarrow>
            reply (snd (step (goLiveSettled db) (Exit code sg) (srv, se))) =
              Some (Send 500 (''Failed to start stream: FFmpeg exited with code '' @ codeStr code)))
     \<and> (code \<noteq> Some 0 \<longrightarrow>
            reply (snd (step goLiveSettled_v1 (Exit code sg) (srv, se))) =
              Some (Send 500 (''Failed to start stream: FFmpeg exited with code '' @ codeStr code)))
     \<and> promise (snd (step k (Exit (Some 0) sg) (srv, se))) = None
     \<and> reply (snd (step k (Exit (Some 0) sg) (srv, se))) = reply se
     \<and> promise (snd (run k [Exit (Some 0) sg, Timeout] (srv, se))) = Some (Rejected StartTimeout)
     \<and> (Timeout \<in> set evs \<longrightarrow> promise (snd (run k evs (srv, se))) \<noteq> None)
     \<and> (\<forall>v. promise (snd (run k evs (srv, se))) = Some v \<longrightarrow>
             promise (snd (run k (evs @ later) (srv, se))) = Some v)
     \<and> promise (snd (run k [Timeout, Exit code sg] (srv, se))) = Some (Rejected StartTimeout)
     \<and> (includesStr out ''Stream mapping:'' \<or> includesStr out ''Press [q] to stop'' \<longrightarrow>
          promise (snd (run k [Timeout, Stderr out] (srv, se))) = Some (Rejected StartTimeout)
          \<and> streamStarted (snd (run k [Timeout, Stderr out] (srv, se)))
          \<and> streamStatus (fst (run k [Timeout, Stderr out] (srv, se))) = ''live'')"
proof -
  have inv: "readyIsSettled (srv, se)"
    using assms(2) by (simp add: readyIsSettled_def)
  have a: "code \<noteq> Some 0 \<longrightarrow>
      promise (snd (step k (Exit code sg) (srv, se))) = Some (Rejected (ExitedWithCode code))"
    using assms by (auto simp: step_def listener_defs continuation_keeps Let_def)
  have b: "code \<noteq> Some 0 \<and> db 1 = None \<longrightarrow>
      reply (snd (step (goLiveSettled db) (Exit code sg) (srv, se))) =
        Some (Send 500 (''Failed to start stream: FFmpeg exited with code '' @ codeStr code))"
    using assms(2,3)
    by (auto simp: step_def listener_defs continuation_defs errorMessage_def Let_def)
  have b1: "code \<noteq> Some 0 \<longrightarrow>
      reply (snd (step goLiveSettled_v1 (Exit code sg) (srv, se))) =
        Some (Send 500 (''Failed to start stream: FFmpeg exited with code '' @ codeStr code))"
    using assms(2,3)
    by (auto simp: step_def listener_defs continuation_defs errorMessage_def errorMessage_v1_def
        Let_def)
  have c: "promise (snd (step k (Exit (Some 0) sg) (srv, se))) = None"
    using assms by (auto simp: step_def listener_defs Let_def)
  have c1: "reply (snd (step k (Exit (Some 0) sg) (srv, se))) = reply se"
    using assms by (auto simp: step_def listener_defs Let_def)
  have d: "promise (snd (run k [Exit (Some 0) sg, Timeout] (srv, se))) = Some (Rejected StartTimeout)"
    using assms by (auto simp: step_def listener_defs continuation_keeps Let_def)
  have e: "Timeout \<in> set evs \<longrightarrow> promise (snd (run k evs (srv, se))) \<noteq> None"
    using run_timeout_settles [OF assms(1) inv] by blast
  have f: "\<forall>v. promise (snd (run k evs (srv, se))) = Some v \<longrightarrow>
             promise (snd (run k (evs @ later) (srv, se))) = Some v"
    using run_keeps_settled [OF assms(1)] by (simp add: run_append)
  have t: "promise (snd (step k Timeout (srv, se))) = Some (Rejected StartTimeout)"
    and t1: "\<not> streamStarted (snd (step k Timeout (srv, se)))"
    using assms by (auto simp: step_def listener_defs continuation_keeps Let_def)
  have g: "promise (snd (run k [Timeout, Exit code sg] (srv, se))) = Some (Rejected StartTimeout)"
    using step_keeps_settled [OF assms(1) t] by simp
  have h: "includesStr out ''Stream mapping:'' \<or> includesStr out ''Press [q] to stop'' \<longrightarrow>
          promise (snd (run k [Timeout, Stderr out] (srv, se))) = Some (Rejected StartTimeout)
          \<and> streamStarted (snd (run k [Timeout, Stderr out] (srv, se)))
          \<and> streamStatus (fst (run k [Timeout, Stderr out] (srv, se))) = ''live''"
    using t t1 by (auto simp: step_def [of k "Stderr out"] onStderr_def settle_def logLine_def Let_def)
  from a b b1 c c1 d e f g h show ?thesis by blast
qed


theorem start_verdicts_witness:
  "(goLiveSettled noDbError = goLiveSettled noDbError \<or> goLiveSettled noDbError = goLiveSettled_v1)
   \<and> \<not> streamStarted (snd startingState) \<and> promise (snd startingState) = None
   \<and> Some (1::int) \<noteq> Some 0 \<and> noDbError 1 = None \<and> Timeout \<in> set [Stdout ''x'', Timeout]
   \<and> includesStr ''Stream mapping:'' ''Stream mapping:''
   \<and> promise (snd (step (goLiveSettled noDbError) (Exit (Some 1) None) startingState))
       = Some (Rejected (ExitedWithCode (Some 1)))
   \<and> reply (snd (step (goLiveSettled noDbError) (Exit (Some 1) None) startingState))
       = Some (Send 500 ''Failed to start stream: FFmpeg exited with code 1'')
   \<and> reply (snd (step goLiveSettled_v1 (Exit (Some 1) None) startingState))
       = Some (Send 500 ''Failed to start stream: FFmpeg exited with code 1'')
   \<and> promise (snd (run (goLiveSettled noDbError) [Stdout ''x'', Timeout] startingState)) \<noteq> None
   \<and> promise (snd (run (goLiveSettled noDbError) [Exit (Some 1) None] startingState))
       = Some (Rejected (ExitedWithCode (Some 1)))
   \<and> promise (snd (run (goLiveSettled noDbError) ([Exit (Some 1) None] @ [Timeout]) startingState))
       = Some (Rejected (ExitedWithCode (Some 1)))
   \<and> promise (snd (run (goLiveSettled noDbError) [Timeout, Exit (Some 1) None] startingState))
       = Some (Rejected StartTimeout)
   \<and> streamStatus (fst (run (goLiveSettled noDbError) [Timeout, Stderr ''Stream mapping:'']
        startingState)) = ''live''"
  using start_verdicts [where k = "goLiveSettled noDbError" and db = noDbError
      and se = "snd startingState" and code = "Some 1" and sg = None
      and srv = "fst startingState" and evs = "[Stdout ''x'', Timeout]" and later = "[]"
      and out = "''Stream mapping:''"]
    start_verdicts [where k = "goLiveSettled noDbError" and db = noDbError
      and se = "snd startingState" and code = "Some 1" and sg = None
      and srv = "fst startingState" and evs = "[Exit (Some 1) None]" and later = "[Timeout]"
      and out = "''Stream mapping:''"]
  by (simp add: startingState_eq noDbError_def codeStr_def intStr_def digitChar_def
      startsWith_def)

theorem start_verdicts_counterexample:
  "\<not> streamStarted (snd startingState) \<and> promise (snd startingState) = None
   \<and> promise (snd (step (goLiveSettled noDbError) (Exit (Some 0) None) startingState)) = None
   \<and> reply (snd (step (goLiveSettled noDbError) (Exit (Some 0) None) startingState)) = None
   \<and> promise (snd (run (goLiveSettled noDbError) [Exit (Some 0) None, Timeout] startingState))
       = Some (Rejected StartTimeout)
   \<and> promise (snd (run (goLiveSettled noDbError) [Timeout, Stderr ''Stream mapping:'']
        startingState)) = Some (Rejected StartTimeout)
   \<and> streamStarted (snd (run (goLiveSettled noDbError) [Timeout, Stderr ''Stream mapping:'']
        startingState))
   \<and> apiStatus (fst (run (goLiveSettled noDbError) [Timeout, Stderr ''Stream mapping:'']
        startingState)) = (''live'', True)"
  by (simp add: startingState_eq step_def listener_defs continuation_defs
      errorMessage_def noDbError_def apiStatus_def startsWith_def Let_def)

text \<open>
  C2, as the code has it. When the timer fires with no ready verdict and the promise
  pending, the promise is rejected with the timeout error, the status becomes \<open>error\<close>
  and the request is answered 500 with the timeout message (in the current server with
  \<open>Internal server error\<close> when the save of the stream document throws). No signal is
  sent and the handle stays as it was.
\<close>

theorem timeout_rejects_without_kill:
  assumes "\<not> streamStarted se" and "promise se = None"
  shows "step goLiveSettled_v1 Timeout (srv, se) =
           (srv\<lparr>consoleError := consoleError srv @ [(''Failed to start stream:'', StartTimeout)],
                 streamStatus := ''error''\<rparr>,
            se\<lparr>promise := Some (Rejected StartTimeout),
                reply := Some (Send 500
                  ''Failed to start stream: FFmpeg failed to start within timeout period'')\<rparr>)
     \<and> step (goLiveSettled db) Timeout (srv, se) =
          (case db 1 of
             None \<Rightarrow>
               (srv\<lparr>consoleError := consoleError srv @
                        [(''Failed to start stream:'', StartTimeout)],
                     streamStatus := ''error''\<rparr>,
                se\<lparr>promise := Some (Rejected StartTimeout),
                    stream := map_option
                      (\<lambda>d. d\<lparr>doc_status := ''error'',
                              doc_errorMessage := Some ''FFmpeg failed to start within timeout'',
                              doc_ended := True\<rparr>) (stream se),
                    reply := Some (Send 500
                      ''Failed to start stream: FFmpeg failed to start within timeout'')\<rparr>)
           | Some m \<Rightarrow>
               (srv\<lparr>consoleError := consoleError srv @
                        [(''Failed to start stream:'', StartTimeout),
                         (''Error in /api/go-live:'', StorageError m)],
                     streamStatus := ''error''\<rparr>,
                se\<lparr>promise := Some (Rejected StartTimeout),
                    stream := map_option
                      (\<lambda>d. d\<lparr>doc_status := ''error'',
                              doc_errorMessage := Some ''FFmpeg failed to start within timeout'',
                              doc_ended := True\<rparr>) (stream se),
                    reply := Some (Send 500 ''Internal server error'')\<rparr>))
     \<and> currentStreamProcess (fst (step goLiveSettled_v1 Timeout (srv, se)))
           = currentStreamProcess srv
     \<and> signals (fst (step goLiveSettled_v1 Timeout (srv, se))) = signals srv
     \<and> currentStreamProcess (fst (step (goLiveSettled db) Timeout (srv, se)))
           = currentStreamProcess srv
     \<and> signals (fst (step (goLiveSettled db) Timeout (srv, se))) = signals srv"
  using assms
  by (simp add: step_def listener_defs continuation_defs errorMessage_def errorMessage_v1_def
      Let_def split: option.splits)

theorem timeout_rejects_without_kill_witness:
  "\<not> streamStarted (snd startingState) \<and> promise (snd startingState) = None
   \<and> reply (snd (step (goLiveSettled noDbError) Timeout startingState)) =
       Some (Send 500 ''Failed to start stream: FFmpeg failed to start within timeout'')
   \<and> reply (snd (step goLiveSettled_v1 Timeout startingState)) =
       Some (Send 500 ''Failed to start stream: FFmpeg failed to start within timeout period'')
   \<and> streamStatus (fst (step (goLiveSettled noDbError) Timeout startingState)) = ''error''
   \<and> currentStreamProcess (fst (step (goLiveSettled noDbError) Timeout startingState)) =
       Some \<lparr>pid = 1, killed = False\<rparr>
   \<and> signals (fst (step (goLiveSettled noDbError) Timeout startingState)) = []"
  using timeout_rejects_without_kill [where se = "snd startingState" and db = noDbError
      and srv = "fst startingState"]
  by (simp add: startingState_eq noDbError_def)

theorem timeout_counterexample:
  "reply (snd (step (goLiveSettled noDbError) Timeout startingState)) =
       Some (Send 500 ''Failed to start stream: FFmpeg failed to start within timeout'')
   \<and> currentStreamProcess (fst (step (goLiveSettled noDbError) Timeout startingState)) =
       Some \<lparr>pid = 1, killed = False\<rparr>
   \<and> signals (fst (step (goLiveSettled noDbError) Timeout startingState)) = []
   \<and> apiStatus (fst (step (goLiveSettled noDbError) Timeout startingState)) = (''error'', True)
   \<and> reply (snd (step goLiveSettled_v1 Timeout startingState)) =
       Some (Send 500 ''Failed to start stream: FFmpeg failed to start within timeout period'')
   \<and> currentStreamProcess (fst (step goLiveSettled_v1 Timeout startingState)) =
       Some \<lparr>pid = 1, killed = False\<rparr>
   \<and> signals (fst (step goLiveSettled_v1 Timeout startingState)) = []"
  by (simp add: startingState_eq step_def listener_defs continuation_defs
      errorMessage_def errorMessage_v1_def noDbError_def apiStatus_def Let_def)

section \<open>The routes\<close>

text \<open>
  A request without stream URL or stream key is refused before anything else happens.
\<close>

lemma goLive_missing_key_or_url:
  assumes "\<not> truthy (body_streamUrl req) \<or> \<not> truthy (body_streamKey req)"
  shows "goLive db req r newPid st = (st, Some (Send 400 ''Stream URL and Stream Key are required''))
     \<and> goLive_v1 req r newPid st = (st, Some (Send 400 ''Stream URL and Stream Key are required''))"
  using assms by (auto simp: goLive_def goLive_v1_def)

text \<open>
  C5, at a concrete request. With URL and key present but neither file nor link, the
  request is answered 400 and nothing is spawned, yet the handler has by then sent
  \<open>SIGTERM\<close> to the live process and set the status to \<open>starting\<close>, where it stays.
  On an idle server the status is left at \<open>starting\<close> as well.
\<close>

theorem goLive_missing_input_side_effects:
  "file_path (exampleRequest\<lparr>body_videoLink := None\<rparr>) = None
   \<and> body_videoLink (exampleRequest\<lparr>body_videoLink := None\<rparr>) = None
   \<and> apiStatus (fst liveState) = (''live'', True) \<and> signals (fst liveState) = []
   \<and> snd (goLive noDbError (exampleRequest\<lparr>body_videoLink := None\<rparr>)
            (ExitsWith None (Some ''SIGTERM'')) 2 liveState)
       = Some (Send 400 ''Either video file or video link is required'')
   \<and> spawned (fst (fst (goLive noDbError (exampleRequest\<lparr>body_videoLink := None\<rparr>)
            (ExitsWith None (Some ''SIGTERM'')) 2 liveState))) = spawned (fst liveState)
   \<and> signals (fst (fst (goLive noDbError (exampleRequest\<lparr>body_videoLink := None\<rparr>)
            (ExitsWith None (Some ''SIGTERM'')) 2 liveState))) = [(1, SIGTERM)]
   \<and> apiStatus (fst (fst (goLive noDbError (exampleRequest\<lparr>body_videoLink := None\<rparr>)
            (ExitsWith None (Some ''SIGTERM'')) 2 liveState))) = (''starting'', False)
   \<and> snd (goLive_v1 (exampleRequest\<lparr>body_videoLink := None\<rparr>)
            (ExitsWith None (Some ''SIGTERM'')) 2 liveState)
       = Some (Send 400 ''Either video file or video link is required'')
   \<and> signals (fst (fst (goLive_v1 (exampleRequest\<lparr>body_videoLink := None\<rparr>)
            (ExitsWith None (Some ''SIGTERM'')) 2 liveState))) = [(1, SIGTERM)]
   \<and> apiStatus (fst (fst (goLive_v1 (exampleRequest\<lparr>body_videoLink := None\<rparr>)
            (ExitsWith None (Some ''SIGTERM'')) 2 liveState))) = (''starting'', False)
   \<and> apiStatus initialServer = (''idle'', False)
   \<and> goLive noDbError (exampleRequest\<lparr>body_videoLink := None\<rparr>) NoExit 1
         (initialServer, noSession)
       = ((initialServer\<lparr>streamStatus := ''starting''\<rparr>, noSession),
          Some (Send 400 ''Either video file or video link is required''))"
  by (simp add: liveState_eq goLive_def goLive_v1_def goLive_resume_def goLive_resume_v1_def
      exampleRequest_def truthy_def chooseInput_def kill_defs listener_defs apiStatus_def
      initialServer_def noSession_def Let_def)

theorem goLive_missing_input_side_effects_witness:
  "truthy (body_streamUrl (exampleRequest\<lparr>body_videoLink := None\<rparr>))
   \<and> truthy (body_streamKey (exampleRequest\<lparr>body_videoLink := None\<rparr>))
   \<and> signals (fst (fst (goLive noDbError (exampleRequest\<lparr>body_videoLink := None\<rparr>)
            (ExitsWith None (Some ''SIGTERM'')) 2 liveState))) \<noteq> signals (fst liveState)
   \<and> apiStatus (fst (fst (goLive noDbError (exampleRequest\<lparr>body_videoLink := None\<rparr>)
            (ExitsWith None (Some ''SIGTERM'')) 2 liveState))) \<noteq> apiStatus (fst liveState)
   \<and> fst (goLive noDbError (exampleRequest\<lparr>body_videoLink := None\<rparr>) NoExit 1
            (initialServer, noSession)) \<noteq> (initialServer, noSession)"
  using goLive_missing_input_side_effects
  by (simp add: exampleRequest_def truthy_def initialServer_def)

text \<open>
  What \<open>killStreamProcess\<close> does to a request still waiting, and the two storage calls
  that end \<open>/api/stop\<close> before it reaches \<open>killStreamProcess\<close>.
\<close>

lemma killStreamProcess_resolved:
  assumes "\<not> exitRejectsPending r st"
  shows "\<not> rejectedWhileKilling st (killStreamProcess r ((fst st)\<lparr>streamStatus := s\<rparr>, snd st))"
  using assms
  by (auto simp: exitRejectsPending_def kill_defs listener_defs Let_def
      split: option.splits reaction.splits if_splits)

lemma killStreamProcess_rejects:
  assumes "exitRejectsPending r st"
  shows "rejectedWhileKilling st (killStreamProcess r ((fst st)\<lparr>streamStatus := s\<rparr>, snd st))
     \<and> (\<exists>e. promise (snd (killStreamProcess r ((fst st)\<lparr>streamStatus := s\<rparr>, snd st)))
              = Some (Rejected e))"
  using assms
  by (auto simp: exitRejectsPending_def kill_defs listener_defs continuation_defs Let_def
      split: option.splits reaction.splits if_splits)

lemma goLiveSaved_status:
  "promise (snd st) = Some (Rejected e) \<Longrightarrow> streamStatus (fst (goLiveSaved st)) = ''error''"
  by (auto simp: continuation_defs split: option.splits)

lemma stop_blocked_before_kill:
  assumes "db 0 \<noteq> None \<or> (found \<noteq> None \<and> db 1 \<noteq> None)"
  shows "streamStatus (fst (fst (apiStop db found r st))) = ''stopping''
     \<and> signals (fst (fst (apiStop db found r st))) = signals (fst st)
     \<and> currentStreamProcess (fst (fst (apiStop db found r st))) = currentStreamProcess (fst st)
     \<and> snd (snd (apiStop db found r st)) = Send 500 ''Failed to stop stream''"
  using assms
  by (auto simp: apiStop_def stopFailed_def logError_def Let_def split: option.splits)

text \<open>
  C6, as the code has it. Whatever the process does in response, the earlier server ends
  \<open>/api/stop\<close> with status \<open>idle\<close> and the success response. In the current server,
  when none of the storage calls of \<open>/api/stop\<close> throws, the response is the same and
  the stream document found for the user is saved as \<open>stopped\<close> whatever the exit code;
  the status ends \<open>idle\<close>, an \<open>error\<close> set by the exit listener being overwritten,
  except that it ends \<open>error\<close> when the exit rejects a start still pending (handle not
  yet marked killed, no ready verdict, promise pending, exit code other than 0). When the
  query for the document or the save before the kill throws, the current server answers
  500, leaves the status at \<open>stopping\<close> and sends no signal.
\<close>

theorem stop_ends_idle:
  "streamStatus (fst (fst (apiStop_v1 r st))) = ''idle''
   \<and> snd (apiStop_v1 r st) = Json ''Stream stopped successfully'' ''idle''
   \<and> (db 0 = None \<and> (found \<noteq> None \<longrightarrow> db 1 = None \<and> db 2 = None) \<longrightarrow>
        streamStatus (fst (fst (apiStop db found r st))) =
          (if exitRejectsPending r st then ''error'' else ''idle'')
        \<and> fst (snd (apiStop db found r st)) =
            map_option (\<lambda>d. d\<lparr>doc_status := ''stopped'', doc_ended := True\<rparr>) found
        \<and> snd (snd (apiStop db found r st)) = Json ''Stream stopped successfully'' ''idle'')
   \<and> (db 0 \<noteq> None \<or> (found \<noteq> None \<and> db 1 \<noteq> None) \<longrightarrow>
        streamStatus (fst (fst (apiStop db found r st))) = ''stopping''
        \<and> signals (fst (fst (apiStop db found r st))) = signals (fst st)
        \<and> currentStreamProcess (fst (fst (apiStop db found r st))) = currentStreamProcess (fst st)
        \<and> snd (snd (apiStop db found r st)) = Send 500 ''Failed to stop stream'')"
proof -
  have v1: "streamStatus (fst (fst (apiStop_v1 r st))) = ''idle''
      \<and> snd (apiStop_v1 r st) = Json ''Stream stopped successfully'' ''idle''"
    by (simp add: apiStop_v1_def Let_def)
  have cur: "streamStatus (fst (fst (apiStop db found r st))) =
          (if exitRejectsPending r st then ''error'' else ''idle'')
        \<and> fst (snd (apiStop db found r st)) =
            map_option (\<lambda>d. d\<lparr>doc_status := ''stopped'', doc_ended := True\<rparr>) found
        \<and> snd (snd (apiStop db found r st)) = Json ''Stream stopped successfully'' ''idle''"
    if ok: "db 0 = None \<and> (found \<noteq> None \<longrightarrow> db 1 = None \<and> db 2 = None)"
  proof (cases "exitRejectsPending r st")
    case True
    from killStreamProcess_rejects [OF True, of "''stopping''"]
    obtain e where rej: "rejectedWhileKilling st
          (killStreamProcess r ((fst st)\<lparr>streamStatus := ''stopping''\<rparr>, snd st))"
      and pr: "promise (snd (killStreamProcess r ((fst st)\<lparr>streamStatus := ''stopping''\<rparr>, snd st)))
          = Some (Rejected e)"
      by blast
    have "streamStatus (fst (goLiveSaved
            ((fst (killStreamProcess r ((fst st)\<lparr>streamStatus := ''stopping''\<rparr>, snd st)))
               \<lparr>streamStatus := ''idle''\<rparr>,
             snd (killStreamProcess r ((fst st)\<lparr>streamStatus := ''stopping''\<rparr>, snd st))))) = ''error''"
      using pr by (intro goLiveSaved_status [where e = e]) simp
    with ok rej True show ?thesis
      by (cases found) (auto simp: apiStop_def Let_def option.map_comp comp_def)
  next
    case False
    from killStreamProcess_resolved [OF False, of "''stopping''"] ok False show ?thesis
      by (cases found) (auto simp: apiStop_def Let_def option.map_comp comp_def)
  qed
  from v1 cur stop_blocked_before_kill [of db found r st] show ?thesis by blast
qed


theorem stop_ends_idle_witness:
  "noDbError 0 = None \<and> noDbError 1 = None \<and> noDbError 2 = None
   \<and> stream (snd liveState) \<noteq> None
   \<and> \<not> exitRejectsPending (ExitsWith None (Some ''SIGTERM'')) liveState
   \<and> streamStatus (fst (fst (apiStop noDbError (stream (snd liveState))
        (ExitsWith None (Some ''SIGTERM'')) liveState))) = ''idle''
   \<and> map_option doc_status (fst (snd (apiStop noDbError (stream (snd liveState))
        (ExitsWith None (Some ''SIGTERM'')) liveState))) = Some ''stopped''
   \<and> streamStatus (fst (fst (apiStop_v1 (ExitsWith None (Some ''SIGTERM'')) liveState))) = ''idle''
   \<and> exitRejectsPending (ExitsWith None (Some ''SIGTERM'')) startingState
   \<and> streamStatus (fst (fst (apiStop noDbError None
        (ExitsWith None (Some ''SIGTERM'')) startingState))) = ''error''
   \<and> snd (snd (apiStop noDbError None (ExitsWith None (Some ''SIGTERM'')) startingState))
       = Json ''Stream stopped successfully'' ''idle''
   \<and> streamStatus (fst (fst (apiStop_v1 (ExitsWith None (Some ''SIGTERM'')) startingState)))
       = ''idle''
   \<and> dbFindFails 0 \<noteq> None
   \<and> streamStatus (fst (fst (apiStop dbFindFails None NoExit liveState))) = ''stopping''
   \<and> signals (fst (fst (apiStop dbFindFails None NoExit liveState))) = []
   \<and> snd (snd (apiStop dbFindFails None NoExit liveState)) = Send 500 ''Failed to stop stream''"
  using stop_ends_idle [where st = liveState and db = noDbError
      and found = "stream (snd liveState)" and r = "ExitsWith None (Some ''SIGTERM'')"]
    stop_ends_idle [where st = startingState and db = noDbError
      and found = None and r = "ExitsWith None (Some ''SIGTERM'')"]
    stop_ends_idle [where st = liveState and db = dbFindFails
      and found = None and r = NoExit]
  by (simp add: liveState_eq startingState_eq noDbError_def dbFindFails_def
      exitRejectsPending_def)

theorem stop_counterexample:
  "apiStatus (fst liveState) = (''live'', True)
   \<and> apiStatus (fst (fst (apiStop_v1 (ExitsWith (Some 1) None) liveState))) = (''idle'', False)
   \<and> apiStatus (fst (fst (apiStop_v1 (ExitsWith None (Some ''SIGTERM'')) liveState)))
       = (''idle'', False)
   \<and> apiStatus (fst (fst (apiStop noDbError (stream (snd liveState)) (ExitsWith (Some 1) None)
        liveState))) = (''idle'', False)
   \<and> map_option doc_status (fst (snd (apiStop noDbError (stream (snd liveState))
        (ExitsWith (Some 1) None) liveState))) = Some ''stopped''"
  by (simp add: liveState_eq apiStop_def apiStop_v1_def kill_defs listener_defs apiStatus_def
      noDbError_def Let_def)

text \<open>
  C10. With no handle held, \<open>killStreamProcess\<close> resolves at once and changes nothing,
  so no signal is sent; \<open>/api/stop\<close> answers success with status \<open>idle\<close> and the
  status variable is \<open>idle\<close> afterwards whatever it was, \<open>error\<close> included. The
  current server does the same when none of its storage calls throws.
\<close>

theorem stop_without_handle:
  assumes "currentStreamProcess srv = None"
  shows "killStreamProcess_sync srv = (srv, True)
     \<and> killStreamProcess r (srv, se) = (srv, se)
     \<and> apiStop_v1 r (srv, se) =
         ((srv\<lparr>streamStatus := ''idle''\<rparr>, se), Json ''Stream stopped successfully'' ''idle'')
     \<and> signals (fst (fst (apiStop_v1 r (srv, se)))) = signals srv
     \<and> apiStatus (fst (fst (apiStop_v1 r (srv, se)))) = (''idle'', False)
     \<and> (db 0 = None \<and> (found \<noteq> None \<longrightarrow> db 1 = None \<and> db 2 = None) \<longrightarrow>
          apiStop db found r (srv, se) =
            ((srv\<lparr>streamStatus := ''idle''\<rparr>, se),
             map_option (\<lambda>d. d\<lparr>doc_status := ''stopped'', doc_ended := True\<rparr>) found,
             Json ''Stream stopped successfully'' ''idle''))"
  using assms
  by (cases found) (auto simp: apiStop_def apiStop_v1_def kill_defs apiStatus_def Let_def
      option.map_comp comp_def)

theorem stop_without_handle_witness:
  "currentStreamProcess (initialServer\<lparr>streamStatus := ''error''\<rparr>) = None
   \<and> noDbError 0 = None
   \<and> apiStop_v1 NoExit (initialServer\<lparr>streamStatus := ''error''\<rparr>, noSession) =
       ((initialServer, noSession), Json ''Stream stopped successfully'' ''idle'')
   \<and> noDbError 1 = None \<and> noDbError 2 = None \<and> stream (snd liveState) \<noteq> None
   \<and> fst (apiStop noDbError (stream (snd liveState)) NoExit
            (initialServer\<lparr>streamStatus := ''error''\<rparr>, noSession)) = (initialServer, noSession)
   \<and> snd (snd (apiStop noDbError (stream (snd liveState)) NoExit
            (initialServer\<lparr>streamStatus := ''error''\<rparr>, noSession))) =
       Json ''Stream stopped successfully'' ''idle''
   \<and> signals (fst (fst (apiStop_v1 NoExit
            (initialServer\<lparr>streamStatus := ''error''\<rparr>, noSession)))) = []
   \<and> streamStatus initialServer = ''idle'' \<and> signals initialServer = []"
  using stop_without_handle [where srv = "initialServer\<lparr>streamStatus := ''error''\<rparr>"
      and r = NoExit and se = noSession and db = noDbError and found = "stream (snd liveState)"]
  by (simp add: initialServer_def noDbError_def liveState_eq)

section \<open>Requests that meet\<close>

text \<open>
  The states of the two requests that meet, and what \<open>goLiveSaved\<close> leaves alone.
\<close>

lemma raceEntered_eq:
  "raceEntered = (fst liveState)\<lparr>currentStreamProcess := Some \<lparr>pid = 1, killed = True\<rparr>,
                                  signals := [(1, SIGTERM)]\<rparr>"
  by (simp add: raceEntered_def liveState_eq killStreamProcess_sync_def sendSignal_def)

lemma raceSecondStarted_facts:
  "currentStreamProcess (fst raceSecondStarted) = Some \<lparr>pid = 2, killed = False\<rparr>
   \<and> signals (fst raceSecondStarted) = [(1, SIGTERM)]
   \<and> map fst (spawned (fst raceSecondStarted)) = [1, 2]
   \<and> promise (snd raceSecondStarted) = None
   \<and> snd (goLive noDbError exampleRequest NoExit 2 (raceEntered, snd liveState)) = None"
  by (simp add: raceSecondStarted_def raceEntered_eq liveState_eq startingState_eq route_defs
      kill_defs exampleRequest_def noDbError_def logLine_def startsWith_def Let_def)

lemma raceExited_facts:
  "currentStreamProcess (fst raceExited) = None
   \<and> signals (fst raceExited) = [(1, SIGTERM)]
   \<and> map fst (spawned (fst raceExited)) = [1, 2]
   \<and> snd raceExited = snd liveState"
  using raceSecondStarted_facts
  by (simp add: raceExited_def exitWhileKilling_def onExit_def logLine_def liveState_eq Let_def)

lemma raceFirstResumed_facts:
  "currentStreamProcess (fst raceFirstResumed) = Some \<lparr>pid = 3, killed = False\<rparr>
   \<and> signals (fst raceFirstResumed) = [(1, SIGTERM)]
   \<and> map fst (spawned (fst raceFirstResumed)) = [1, 2, 3]
   \<and> snd (goLive_resume noDbError otherRequest 3 False raceExited) = None"
  using raceExited_facts
  by (simp add: raceFirstResumed_def route_defs otherRequest_def noDbError_def logLine_def
      startsWith_def Let_def split: prod.splits)

lemma raceSecondStarted_v1_facts:
  "currentStreamProcess (fst raceSecondStarted_v1) = Some \<lparr>pid = 2, killed = False\<rparr>
   \<and> signals (fst raceSecondStarted_v1) = [(1, SIGTERM)]
   \<and> map fst (spawned (fst raceSecondStarted_v1)) = [1, 2]
   \<and> promise (snd raceSecondStarted_v1) = None
   \<and> snd (goLive_v1 exampleRequest NoExit 2 (raceEntered, snd liveState)) = None"
  by (simp add: raceSecondStarted_v1_def raceEntered_eq liveState_eq startingState_eq route_defs
      kill_defs exampleRequest_def noDbError_def logLine_def startsWith_def Let_def)

lemma raceExited_v1_facts:
  "currentStreamProcess (fst raceExited_v1) = None
   \<and> signals (fst raceExited_v1) = [(1, SIGTERM)]
   \<and> map fst (spawned (fst raceExited_v1)) = [1, 2]
   \<and> snd raceExited_v1 = snd liveState"
  using raceSecondStarted_v1_facts
  by (simp add: raceExited_v1_def exitWhileKilling_def onExit_def logLine_def liveState_eq Let_def)

lemma raceFirstResumed_v1_facts:
  "currentStreamProcess (fst raceFirstResumed_v1) = Some \<lparr>pid = 3, killed = False\<rparr>
   \<and> signals (fst raceFirstResumed_v1) = [(1, SIGTERM)]
   \<and> map fst (spawned (fst raceFirstResumed_v1)) = [1, 2, 3]
   \<and> snd (goLive_resume_v1 otherRequest 3 raceExited_v1) = None"
  using raceExited_v1_facts
  by (simp add: raceFirstResumed_v1_def route_defs otherRequest_def logLine_def
      startsWith_def Let_def split: prod.splits)

lemma race_waits:
  "goLive_entry otherRequest (fst liveState) = Inr (raceEntered, False)
   \<and> killStreamProcess_wait (ExitsWith None (Some ''SIGTERM''))
        (fst raceSecondStarted, snd liveState) = Some raceExited
   \<and> killStreamProcess_wait_v1 (ExitsWith None (Some ''SIGTERM''))
        (fst raceSecondStarted_v1, snd liveState) = raceExited_v1"
  by (simp add: goLive_entry_def otherRequest_def truthy_def raceEntered_def liveState_eq
      killStreamProcess_sync_def killStreamProcess_wait_def killStreamProcess_wait_v1_def
      raceExited_def raceExited_v1_def exitWhileKilling_def onExit_def Let_def)

lemma goLiveSaved_keeps_handle:
  "currentStreamProcess (fst (goLiveSaved st)) = currentStreamProcess (fst st)
   \<and> signals (fst (goLiveSaved st)) = signals (fst st)
   \<and> console (fst (goLiveSaved st)) = console (fst st)
   \<and> spawned (fst (goLiveSaved st)) = spawned (fst st)"
  by (auto simp: continuation_defs logError_def split: option.splits verdict.splits)

text \<open>
  C9, as the code has it. Nothing serializes the handlers across their \<open>await\<close>s. A
  go-live request that resumes after awaiting the kill of the previous process and
  passes its input and URL checks (and, in the current server, its save) sets the handle
  to its newly spawned process whatever handle is held at that moment, and sends no
  signal; the exit listener of a process sets the handle to null whatever process the
  handle refers to; \<open>/api/status\<close> returns the current status string and whether a
  handle is held.
\<close>

theorem no_mutual_exclusion:
  "(body_streamUrl req = Some url \<and> includesStr url ''rtmp://''
      \<and> (file_path req \<noteq> None \<or> truthy (body_videoLink req)) \<longrightarrow>
        currentStreamProcess (fst (fst (goLive_resume_v1 req newPid st)))
          = Some \<lparr>pid = newPid, killed = False\<rparr>
        \<and> signals (fst (fst (goLive_resume_v1 req newPid st))) = signals (fst st)
        \<and> (db 0 = None \<longrightarrow>
             currentStreamProcess (fst (fst (goLive_resume db req newPid caught st)))
               = Some \<lparr>pid = newPid, killed = False\<rparr>
             \<and> signals (fst (fst (goLive_resume db req newPid caught st))) = signals (fst st)))
   \<and> currentStreamProcess (fst (onExit code sg (srv, se))) = None
   \<and> apiStatus srv = (streamStatus srv, currentStreamProcess srv \<noteq> None)"
proof -
  have a: "currentStreamProcess (fst (fst (goLive_resume_v1 req newPid st)))
          = Some \<lparr>pid = newPid, killed = False\<rparr>
        \<and> signals (fst (fst (goLive_resume_v1 req newPid st))) = signals (fst st)"
    if "body_streamUrl req = Some url" "includesStr url ''rtmp://''"
       "file_path req \<noteq> None \<or> truthy (body_videoLink req)"
    using that
    by (auto simp: goLive_resume_v1_def chooseInput_def truthy_def startFFmpegStream_v1_def
        spawnFFmpeg_def logLine_def Let_def split: option.splits)
  have b: "currentStreamProcess (fst (fst (goLive_resume db req newPid caught st)))
               = Some \<lparr>pid = newPid, killed = False\<rparr>
             \<and> signals (fst (fst (goLive_resume db req newPid caught st))) = signals (fst st)"
    if "body_streamUrl req = Some url" "includesStr url ''rtmp://''"
       "file_path req \<noteq> None \<or> truthy (body_videoLink req)" "db 0 = None"
    using that
    by (auto simp: goLive_resume_def chooseInput_def truthy_def startFFmpegStream_def
        spawnFFmpeg_def logLine_def goLiveSaved_keeps_handle Let_def
        split: option.splits prod.splits)
  have c: "currentStreamProcess (fst (onExit code sg (srv, se))) = None"
    by (simp add: onExit_def Let_def)
  have d: "apiStatus srv = (streamStatus srv, currentStreamProcess srv \<noteq> None)"
    by (simp add: apiStatus_def)
  from a b c d show ?thesis by blast
qed

theorem no_mutual_exclusion_witness:
  "body_streamUrl otherRequest = Some ''rtmp://a.rtmp.youtube.com/live2''
   \<and> includesStr ''rtmp://a.rtmp.youtube.com/live2'' ''rtmp://''
   \<and> truthy (body_videoLink otherRequest) \<and> noDbError 0 = None
   \<and> currentStreamProcess (fst raceSecondStarted) = Some \<lparr>pid = 2, killed = False\<rparr>
   \<and> currentStreamProcess (fst (fst (goLive_resume noDbError otherRequest 3 False
        raceSecondStarted))) = Some \<lparr>pid = 3, killed = False\<rparr>
   \<and> signals (fst (fst (goLive_resume noDbError otherRequest 3 False raceSecondStarted)))
       = signals (fst raceSecondStarted)
   \<and> currentStreamProcess (fst (fst (goLive_resume_v1 otherRequest 3 raceSecondStarted)))
       = Some \<lparr>pid = 3, killed = False\<rparr>
   \<and> currentStreamProcess (fst (onExit None (Some ''SIGTERM'')
        (fst raceSecondStarted, snd liveState))) = None"
  using no_mutual_exclusion [where req = otherRequest and url = "''rtmp://a.rtmp.youtube.com/live2''"
      and db = noDbError and newPid = 3 and caught = False and st = raceSecondStarted
      and code = None and sg = "Some ''SIGTERM''" and srv = "fst raceSecondStarted"
      and se = "snd liveState"]
    raceSecondStarted_facts
  by (simp add: otherRequest_def truthy_def noDbError_def startsWith_def)

text \<open>
  Two go-live requests while a stream is live: the first signals process 1 and waits; the
  second finds the handle marked killed, does not wait, and spawns process 2; the exit of
  process 1 clears the handle, which by then refers to process 2; the first request
  resumes and spawns process 3. Three processes were spawned, only process 1 was ever
  signalled, the handle holds process 3, and process 2 runs without a handle while its
  request still waits.
\<close>

theorem two_starts_counterexample:
  "apiStatus (fst liveState) = (''live'', True)
   \<and> goLive_entry otherRequest (fst liveState) = Inr (raceEntered, False)
   \<and> signals raceEntered = [(1, SIGTERM)]
   \<and> snd (goLive noDbError exampleRequest NoExit 2 (raceEntered, snd liveState)) = None
   \<and> currentStreamProcess (fst raceSecondStarted) = Some \<lparr>pid = 2, killed = False\<rparr>
   \<and> promise (snd raceSecondStarted) = None
   \<and> killStreamProcess_wait (ExitsWith None (Some ''SIGTERM''))
        (fst raceSecondStarted, snd liveState) = Some raceExited
   \<and> currentStreamProcess (fst raceExited) = None
   \<and> snd (goLive_resume noDbError otherRequest 3 False raceExited) = None
   \<and> currentStreamProcess (fst raceFirstResumed) = Some \<lparr>pid = 3, killed = False\<rparr>
   \<and> map fst (spawned (fst raceFirstResumed)) = [1, 2, 3]
   \<and> signals (fst raceFirstResumed) = [(1, SIGTERM)]
   \<and> snd (goLive_v1 exampleRequest NoExit 2 (raceEntered, snd liveState)) = None
   \<and> currentStreamProcess (fst raceSecondStarted_v1) = Some \<lparr>pid = 2, killed = False\<rparr>
   \<and> killStreamProcess_wait_v1 (ExitsWith None (Some ''SIGTERM''))
        (fst raceSecondStarted_v1, snd liveState) = raceExited_v1
   \<and> currentStreamProcess (fst raceExited_v1) = None
   \<and> currentStreamProcess (fst raceFirstResumed_v1) = Some \<lparr>pid = 3, killed = False\<rparr>
   \<and> map fst (spawned (fst raceFirstResumed_v1)) = [1, 2, 3]
   \<and> signals (fst raceFirstResumed_v1) = [(1, SIGTERM)]"
  using raceSecondStarted_facts raceExited_facts raceFirstResumed_facts
    raceSecondStarted_v1_facts raceExited_v1_facts raceFirstResumed_v1_facts race_waits
  by (simp add: raceEntered_eq liveState_eq apiStatus_def)

end
